theory Spec2Isabelle
  imports Complex_Main "HOL-Library.Sublist" "HOL-Library.AList"
begin

section \<open>Python values used by \<^verbatim>\<open>agents/reconciliation_tracer.py\<close>\<close>

subsection \<open>Strings\<close>

text \<open>
  A Python \<^verbatim>\<open>str\<close> is modelled as a \<^typ>\<open>string\<close> holding its UTF-8 encoding: an ASCII
  character is one \<^typ>\<open>char\<close>, any other code point is the two to four bytes of its
  encoding. Equality, concatenation, \<^verbatim>\<open>in\<close> and \<^verbatim>\<open>replace\<close> agree with Python on
  encoded text, because UTF-8 is self-synchronising.
\<close>

definition nl :: string where
  "nl = [CHR 0x0A]"

definition euro_sign :: string where
  "euro_sign = [CHR 0xE2, CHR 0x82, CHR 0xAC]"

definition pound_sign :: string where
  "pound_sign = [CHR 0xC2, CHR 0xA3]"

definition bullet :: string where
  "bullet = [CHR 0xE2, CHR 0x80, CHR 0xA2]"

definition check_mark :: string where
  "check_mark = [CHR 0xE2, CHR 0x9C, CHR 0x85]"

definition cross_mark :: string where
  "cross_mark = [CHR 0xE2, CHR 0x9D, CHR 0x8C]"

definition magnifier :: string where
  "magnifier = [CHR 0xF0, CHR 0x9F, CHR 0x94, CHR 0x8D]"

definition scales :: string where
  "scales = [CHR 0xE2, CHR 0x9A, CHR 0x96, CHR 0xEF, CHR 0xB8, CHR 0x8F]"

definition bar_chart :: string where
  "bar_chart = [CHR 0xF0, CHR 0x9F, CHR 0x93, CHR 0x8A]"

text \<open>\<^verbatim>\<open>len(s)\<close> counts code points: every byte that is not a UTF-8 continuation byte.\<close>

definition py_len :: "string \<Rightarrow> nat" where
  "py_len s = length (filter (\<lambda>c. of_char c < (128::nat) \<or> (192::nat) \<le> of_char c) s)"

text \<open>\<^verbatim>\<open>pat in s\<close>: \<open>pat\<close> occurs in \<open>s\<close> as a contiguous substring.\<close>

primrec str_in :: "string \<Rightarrow> string \<Rightarrow> bool" where
  "str_in pat [] = (pat = [])"
| "str_in pat (c # cs) = (prefix pat (c # cs) \<or> str_in pat cs)"

text \<open>\<^verbatim>\<open>s.replace(old, '')\<close> for a non-empty \<open>old\<close>: scanning from the left, every
  non-overlapping occurrence of \<open>old\<close> is dropped.\<close>

function remove_all :: "string \<Rightarrow> string \<Rightarrow> string" where
  "remove_all old [] = []"
| "remove_all old (c # cs) =
     (if old \<noteq> [] \<and> prefix old (c # cs)
      then remove_all old (drop (length old) (c # cs))
      else c # remove_all old cs)"
  by pat_completeness auto
termination
  by (relation "measure (\<lambda>(old, s). length s)") (auto simp: neq_Nil_conv)

text \<open>\<^verbatim>\<open>s.strip()\<close>: leading and trailing whitespace is removed. The ASCII whitespace
  characters of \<^verbatim>\<open>str.isspace\<close> are modelled (tab, LF, VT, FF, CR, FS, GS, RS, US,
  space).\<close>

definition is_space :: "char \<Rightarrow> bool" where
  "is_space c = (c \<in> set [CHR 0x09, CHR 0x0A, CHR 0x0B, CHR 0x0C, CHR 0x0D,
                         CHR 0x1C, CHR 0x1D, CHR 0x1E, CHR 0x1F, CHR 0x20])"

definition strip :: "string \<Rightarrow> string" where
  "strip s = rev (dropWhile is_space (rev (dropWhile is_space s)))"

subsection \<open>The regular expression engine\<close>

text \<open>
  \<^verbatim>\<open>re\<close> is a backtracking matcher: alternatives are tried in priority order and the
  first success wins; a greedy quantifier first tries to consume one more character.
  The pattern of \<^verbatim>\<open>_extract_number\<close> is a sequence of quantified character classes, so
  the engine is modelled for such sequences. \<open>rmatch\<close> returns the input left after the
  match found at the start of the string, or \<open>None\<close> when there is none.
\<close>

datatype item = Opt string | Star string | Plus string

fun rmatch :: "item list \<Rightarrow> string \<Rightarrow> string option" where
  "rmatch [] s = Some s"
| "rmatch (Opt cls # items) [] = rmatch items []"
| "rmatch (Opt cls # items) (c # cs) =
     (if c \<in> set cls
      then (case rmatch items cs of Some r \<Rightarrow> Some r | None \<Rightarrow> rmatch items (c # cs))
      else rmatch items (c # cs))"
| "rmatch (Star cls # items) [] = rmatch items []"
| "rmatch (Star cls # items) (c # cs) =
     (if c \<in> set cls
      then (case rmatch (Star cls # items) cs of Some r \<Rightarrow> Some r
            | None \<Rightarrow> rmatch items (c # cs))
      else rmatch items (c # cs))"
| "rmatch (Plus cls # items) [] = None"
| "rmatch (Plus cls # items) (c # cs) =
     (if c \<in> set cls then rmatch (Star cls # items) cs else None)"

text \<open>\<^verbatim>\<open>re.findall\<close>: the matches found scanning from the left; after a match the scan
  resumes where the match ended, after a failure (or an empty match) one character
  further.\<close>

function findall :: "item list \<Rightarrow> string \<Rightarrow> string list" where
  "findall pat s =
     (case rmatch pat s of
        Some r \<Rightarrow>
          (if length r < length s then take (length s - length r) s # findall pat r
           else [] # (case s of [] \<Rightarrow> [] | c # cs \<Rightarrow> findall pat cs))
      | None \<Rightarrow> (case s of [] \<Rightarrow> [] | c # cs \<Rightarrow> findall pat cs))"
  by pat_completeness auto
termination
  by (relation "measure (\<lambda>(pat, s). length s)") auto

declare findall.simps [simp del]

text \<open>\<^verbatim>\<open>\d\<close> is modelled on the ASCII digits.\<close>

definition digit_chars :: string where
  "digit_chars = ''0123456789''"

text \<open>\<^verbatim>\<open>number_pattern = r'[-+]?\d*\.?\d+'\<close>\<close>

definition number_pattern :: "item list" where
  "number_pattern = [Opt ''-+'', Star digit_chars, Opt ''.'', Plus digit_chars]"


subsection \<open>Numbers\<close>

text \<open>
  A Python \<^verbatim>\<open>float\<close> is modelled as an exact rational: \<open>+\<close>, \<open>-\<close>, \<open>/\<close>, \<open>abs\<close>, \<open>max\<close>
  and \<open>\<le>\<close> are those of \<^typ>\<open>rat\<close>. The rounding of IEEE doubles, infinities, NaN and the
  sign of zero are outside the model, and so are the texts that denote them: \<^verbatim>\<open>float\<close>
  is modelled on plain decimal text (optional sign, digits, optional fraction), and
  \<^verbatim>\<open>str\<close> of a float always prints positional notation.
\<close>

datatype exn = ValueError string | KeyError string | FileNotFoundError string | OSError string

text \<open>\<^verbatim>\<open>str(e)\<close>; a \<^verbatim>\<open>KeyError\<close> carries the \<^verbatim>\<open>repr\<close> of the missing key.\<close>

fun exn_str :: "exn \<Rightarrow> string" where
  "exn_str (ValueError m) = m"
| "exn_str (KeyError k) = k"
| "exn_str (FileNotFoundError m) = m"
| "exn_str (OSError m) = m"

definition is_digit :: "char \<Rightarrow> bool" where
  "is_digit c = (c \<in> set digit_chars)"

definition digit_val :: "char \<Rightarrow> nat" where
  "digit_val c = of_char c - 48"

definition digits_val :: "string \<Rightarrow> nat" where
  "digits_val ds = foldl (\<lambda>acc c. 10 * acc + digit_val c) 0 ds"

definition digit_char :: "nat \<Rightarrow> char" where
  "digit_char d = digit_chars ! (d mod 10)"

text \<open>\<^verbatim>\<open>repr\<close> of a string, as it appears in the message of a failed conversion (the
  escaping of quotes and control characters is not modelled).\<close>

definition py_repr :: "string \<Rightarrow> string" where
  "py_repr s = [CHR 0x27] @ s @ [CHR 0x27]"

text \<open>\<^verbatim>\<open>float(s)\<close>: surrounding whitespace is ignored; anything but a decimal numeral
  raises \<^verbatim>\<open>ValueError\<close>.\<close>

definition py_float :: "string \<Rightarrow> exn + rat" where
  "py_float s =
     (let t = strip s;
          neg = (case t of [] \<Rightarrow> False | c # cs \<Rightarrow> c = CHR ''-'');
          u = (case t of [] \<Rightarrow> [] | c # cs \<Rightarrow> if c \<in> set ''-+'' then cs else t);
          ip = takeWhile is_digit u;
          r = dropWhile is_digit u;
          fp = (case r of [] \<Rightarrow> [] | c # cs \<Rightarrow> if c = CHR ''.'' then takeWhile is_digit cs else []);
          rest = (case r of [] \<Rightarrow> [] | c # cs \<Rightarrow> if c = CHR ''.'' then dropWhile is_digit cs else r);
          v = of_nat (digits_val ip) + of_nat (digits_val fp) / 10 ^ length fp
      in if rest = [] \<and> ip @ fp \<noteq> []
         then Inr (if neg then - v else v)
         else Inl (ValueError (''could not convert string to float: '' @ py_repr s)))"

text \<open>\<^verbatim>\<open>str(n)\<close> for a non-negative integer.\<close>

fun nat_str :: "nat \<Rightarrow> string" where
  "nat_str n = (if n < 10 then [digit_char n] else nat_str (n div 10) @ [digit_char n])"

declare nat_str.simps [simp del]

text \<open>The digits of a fraction \<open>0 \<le> r < 1\<close> after the decimal point, at most \<open>k\<close> of
  them; the expansion of a decimal fraction with denominator \<open>d\<close> ends within \<open>d\<close>
  digits.\<close>

fun frac_digits :: "nat \<Rightarrow> rat \<Rightarrow> string" where
  "frac_digits k r =
     (if k = 0 \<or> r = 0 then []
      else digit_char (nat \<lfloor>r * 10\<rfloor>) # frac_digits (k - 1) (r * 10 - of_int \<lfloor>r * 10\<rfloor>))"

declare frac_digits.simps [simp del]

text \<open>\<^verbatim>\<open>str(x)\<close> for a float: sign, integer part, point, fraction (\<^verbatim>\<open>500.0\<close>,
  \<^verbatim>\<open>1234.56\<close>).\<close>

definition py_str_float :: "rat \<Rightarrow> string" where
  "py_str_float x =
     (let a = \<bar>x\<bar>;
          fr = frac_digits (nat (snd (quotient_of a))) (a - of_int \<lfloor>a\<rfloor>)
      in (if x < 0 then ''-'' else []) @ nat_str (nat \<lfloor>a\<rfloor>) @ ''.''
         @ (if fr = [] then ''0'' else fr))"

text \<open>\<^verbatim>\<open>str(x)\<close> for an optional float.\<close>

definition py_str_opt :: "rat option \<Rightarrow> string" where
  "py_str_opt x = (case x of None \<Rightarrow> ''None'' | Some v \<Rightarrow> py_str_float v)"

text \<open>\<^verbatim>\<open>str(x)\<close> for an optional string, as an f-string renders it.\<close>

definition py_str_opt_str :: "string option \<Rightarrow> string" where
  "py_str_opt_str x = (case x of None \<Rightarrow> ''None'' | Some s \<Rightarrow> s)"

definition py_str_bool :: "bool \<Rightarrow> string" where
  "py_str_bool b = (if b then ''True'' else ''False'')"

text \<open>The format specifications \<^verbatim>\<open>:.2f\<close> and \<^verbatim>\<open>:,.2f\<close>: two decimals, ties to even, and
  with the comma a separator every three digits of the integer part.\<close>

definition round_half_even :: "rat \<Rightarrow> int" where
  "round_half_even r =
     (let f = \<lfloor>r\<rfloor>; d = r - of_int f
      in if d < 1 / 2 then f else if 1 / 2 < d then f + 1 else if even f then f else f + 1)"

function group_thousands :: "string \<Rightarrow> string" where
  "group_thousands ds =
     (if length ds \<le> 3 then ds
      else group_thousands (take (length ds - 3) ds) @ '','' @ drop (length ds - 3) ds)"
  by pat_completeness auto
termination
  by (relation "measure length") auto

declare group_thousands.simps [simp del]

definition fmt_2f :: "bool \<Rightarrow> rat \<Rightarrow> string" where
  "fmt_2f comma x =
     (let q = nat (round_half_even (\<bar>x\<bar> * 100));
          ip = nat_str (q div 100);
          fp = [digit_char (q div 10), digit_char q]
      in (if x < 0 then ''-'' else []) @ (if comma then group_thousands ip else ip)
         @ ''.'' @ fp)"

text \<open>\<^verbatim>\<open>max(numbers) if numbers else None\<close>\<close>

definition py_max :: "rat list \<Rightarrow> rat option" where
  "py_max numbers = (case numbers of [] \<Rightarrow> None | x # xs \<Rightarrow> Some (foldl max x xs))"

section \<open>\<^verbatim>\<open>ReconciliationTracer._extract_number\<close>\<close>

text \<open>The comprehension \<^verbatim>\<open>[float(match) for match in matches if match]\<close>: the first
  conversion that raises ends it.\<close>

fun float_all :: "string list \<Rightarrow> exn + rat list" where
  "float_all [] = Inr []"
| "float_all (m # ms) =
     (case py_float m of
        Inl e \<Rightarrow> Inl e
      | Inr v \<Rightarrow> (case float_all ms of Inl e \<Rightarrow> Inl e | Inr vs \<Rightarrow> Inr (v # vs)))"

definition cleaned_of :: "string \<Rightarrow> string" where
  "cleaned_of text =
     strip (remove_all pound_sign (remove_all euro_sign (remove_all '','' (remove_all ''$'' text))))"

text \<open>A \<^verbatim>\<open>ValueError\<close> inside the \<^verbatim>\<open>try\<close> is swallowed and the function falls through to
  \<^verbatim>\<open>return None\<close>.\<close>

definition extract_number :: "string \<Rightarrow> rat option" where
  "extract_number text =
     (if text = [] then None
      else let matches = findall number_pattern (cleaned_of text)
           in if matches = [] then None
              else (case float_all (filter (\<lambda>m. m \<noteq> []) matches) of
                      Inl e \<Rightarrow> None
                    | Inr numbers \<Rightarrow> py_max numbers))"

section \<open>The workflow state, the traces and the tracer object\<close>

text \<open>\<^verbatim>\<open>class ReconciliationState(TypedDict)\<close>. \<^verbatim>\<open>reconcile_amounts\<close> creates the state
  with every key, so \<^verbatim>\<open>state.get(key, default)\<close> is the field.\<close>

record ReconciliationState =
  invoice_amount :: string
  spreadsheet_amount :: string
  reconciliation_result :: string
  verdict :: string
  thinking_log :: "(string \<times> string) list"
  trace_id :: string
  workflow_step :: string
  error :: string

text \<open>A reading of \<^verbatim>\<open>datetime.now()\<close>: its rendering by
  \<^verbatim>\<open>strftime('%Y%m%d_%H%M%S')\<close> and its position on the time line in seconds. A trace
  stores readings as \<^verbatim>\<open>isoformat()\<close> text and reads them back with
  \<^verbatim>\<open>fromisoformat\<close>; the model stores the reading.\<close>

record datetime =
  strftime_text :: string
  seconds :: rat

record state_snapshot =
  snap_workflow_step :: string
  snap_invoice_amount :: string
  snap_spreadsheet_amount :: string
  snap_verdict :: string

record step_entry =
  step :: string
  timestamp :: datetime
  thinking :: string
  snapshot :: state_snapshot

record final_state_entry =
  final_workflow_step :: string
  has_error :: bool
  final_verdict :: string
  final_reconciliation_result :: string

text \<open>One entry of \<^verbatim>\<open>self.trace_data\<close>. The keys \<^verbatim>\<open>"error"\<close> and \<^verbatim>\<open>"final_state"\<close> are
  absent (\<open>None\<close>) until \<^verbatim>\<open>reconcile_amounts\<close> sets them; \<^verbatim>\<open>"end_time"\<close> and
  \<^verbatim>\<open>"result"\<close> start as Python's \<^verbatim>\<open>None\<close>.\<close>

record trace =
  workflow_steps :: "step_entry list"
  start_time :: datetime
  end_time :: "datetime option"
  result :: "string option"
  state_transitions :: "string list"
  trace_error :: "string option"
  final_state :: "final_state_entry option"

text \<open>The object \<^verbatim>\<open>self\<close>, together with the wall clock it reads: \<open>clock t k\<close> is what
  the \<open>k\<close>-th call of \<^verbatim>\<open>datetime.now()\<close> returns and \<open>ticks t\<close> counts the calls made.
  Dictionaries are association lists in insertion order.\<close>

record tracer =
  trace_data :: "(string \<times> trace) list"
  current_trace_id :: "string option"
  live_thinking :: "(string \<times> string) list"
  clock :: "nat \<Rightarrow> datetime"
  ticks :: nat

text \<open>\<^verbatim>\<open>__init__\<close>: no traces, no current trace, empty narration. (The configuration and
  the API client that it also sets up are not used by the reconciliation.)\<close>

definition init_tracer :: "(nat \<Rightarrow> datetime) \<Rightarrow> tracer" where
  "init_tracer clk =
     \<lparr>trace_data = [], current_trace_id = None,
      live_thinking = [(''parsing'', []), (''comparison'', []), (''verdict'', [])],
      clock = clk, ticks = 0\<rparr>"

definition datetime_now :: "tracer \<Rightarrow> datetime \<times> tracer" where
  "datetime_now t = (clock t (ticks t), t\<lparr>ticks := Suc (ticks t)\<rparr>)"

text \<open>Truth value of an optional string: \<^verbatim>\<open>None\<close> and \<^verbatim>\<open>""\<close> are false.\<close>

definition truthy :: "string option \<Rightarrow> bool" where
  "truthy x = (case x of None \<Rightarrow> False | Some s \<Rightarrow> s \<noteq> [])"

definition new_trace :: "datetime \<Rightarrow> trace" where
  "new_trace now =
     \<lparr>workflow_steps = [], start_time = now, end_time = None, result = None,
      state_transitions = [], trace_error = None, final_state = None\<rparr>"

definition create_trace_id :: "tracer \<Rightarrow> string \<times> tracer" where
  "create_trace_id t =
     (let (now1, t1) = datetime_now t;
          tid = ''reconciliation_trace_'' @ strftime_text now1;
          t2 = t1\<lparr>current_trace_id := Some tid\<rparr>;
          (now2, t3) = datetime_now t2
      in (tid, t3\<lparr>trace_data := AList.update tid (new_trace now2) (trace_data t3)\<rparr>))"

definition snapshot_of :: "ReconciliationState \<Rightarrow> state_snapshot" where
  "snapshot_of st =
     \<lparr>snap_workflow_step = workflow_step st,
      snap_invoice_amount = invoice_amount st,
      snap_spreadsheet_amount = spreadsheet_amount st,
      snap_verdict = verdict st\<rparr>"

text \<open>\<^verbatim>\<open>_log_thinking\<close>. The subscript \<^verbatim>\<open>self.trace_data[self.current_trace_id]\<close> raises
  \<^verbatim>\<open>KeyError\<close> when the identifier has no entry; it is evaluated before the new entry
  (and its timestamp) is built.\<close>

definition log_thinking ::
  "tracer \<Rightarrow> ReconciliationState \<Rightarrow> string \<Rightarrow> string \<Rightarrow> tracer \<times> (exn + ReconciliationState)" where
  "log_thinking t st step_name th =
     (let t1 = (if truthy (current_trace_id t) then t else snd (create_trace_id t));
          t2 = t1\<lparr>live_thinking := AList.update step_name th (live_thinking t1)\<rparr>;
          st1 = st\<lparr>thinking_log := AList.update step_name th (thinking_log st)\<rparr>
      in case current_trace_id t2 of
           None \<Rightarrow> (t2, Inl (KeyError ''None''))
         | Some tid \<Rightarrow>
             (case map_of (trace_data t2) tid of
                None \<Rightarrow> (t2, Inl (KeyError (py_repr tid)))
              | Some tr \<Rightarrow>
                  (let (now, t3) = datetime_now t2;
                       entry = \<lparr>step = step_name, timestamp = now, thinking = th,
                                snapshot = snapshot_of st1\<rparr>;
                       tr1 = tr\<lparr>workflow_steps := workflow_steps tr @ [entry]\<rparr>
                   in (t3\<lparr>trace_data := AList.update tid tr1 (trace_data t3)\<rparr>, Inr st1))))"

section \<open>The three nodes\<close>

subsection \<open>\<^verbatim>\<open>parse_amounts_node\<close>\<close>

definition parsed_amount :: "rat option \<Rightarrow> string" where
  "parsed_amount number = (case number of None \<Rightarrow> ''0'' | Some v \<Rightarrow> py_str_float v)"

text \<open>Each node is its computation on the state, which also writes the narration
  \<^verbatim>\<open>thinking\<close>, followed by \<^verbatim>\<open>return self._log_thinking(state, name, thinking)\<close>. The
  computation is the \<open>body\<close> below: it returns the state and the narration.

  Nothing inside the \<^verbatim>\<open>try\<close> of this node raises on strings (\<^verbatim>\<open>_extract_number\<close>
  handles its own \<^verbatim>\<open>ValueError\<close>), so the handler has no branch here.\<close>

definition parse_amounts_body :: "ReconciliationState \<Rightarrow> ReconciliationState \<times> string" where
  "parse_amounts_body st0 =
     (let st = st0\<lparr>workflow_step := ''parse_amounts''\<rparr>;
          thinking0 = nl @ magnifier @ '' AMOUNT PARSING'' @ nl
            @ ''================'' @ nl
            @ ''Invoice Data: '' @ invoice_amount st @ nl
            @ ''Spreadsheet Data: '' @ spreadsheet_amount st @ nl
            @ nl
            @ ''Extracting numerical values for comparison...'' @ nl;
          invoice_number = extract_number (invoice_amount st);
          thinking1 = thinking0 @ bullet @ '' Invoice amount extracted: ''
            @ py_str_opt invoice_number @ nl;
          spreadsheet_number = extract_number (spreadsheet_amount st);
          thinking2 = thinking1 @ bullet @ '' Spreadsheet amount extracted: ''
            @ py_str_opt spreadsheet_number @ nl;
          st1 = st\<lparr>invoice_amount := parsed_amount invoice_number,
                    spreadsheet_amount := parsed_amount spreadsheet_number\<rparr>;
          thinking3 = thinking2 @ nl @ check_mark @ '' Amount parsing completed'' @ nl
      in (st1, thinking3))"

definition parse_amounts_node ::
  "tracer \<Rightarrow> ReconciliationState \<Rightarrow> tracer \<times> (exn + ReconciliationState)" where
  "parse_amounts_node t st0 =
     (let (st1, thinking) = parse_amounts_body st0 in log_thinking t st1 ''parsing'' thinking)"

subsection \<open>\<^verbatim>\<open>compare_amounts_node\<close>\<close>

definition difference_of :: "rat \<Rightarrow> rat \<Rightarrow> rat" where
  "difference_of invoice_val spreadsheet_val = \<bar>invoice_val - spreadsheet_val\<bar>"

definition percentage_diff_of :: "rat \<Rightarrow> rat \<Rightarrow> rat" where
  "percentage_diff_of invoice_val spreadsheet_val =
     (if max invoice_val spreadsheet_val > 0
      then (difference_of invoice_val spreadsheet_val / max invoice_val spreadsheet_val) * 100
      else 0)"

text \<open>\<^verbatim>\<open>tolerance = 0.01  # 1% tolerance\<close>\<close>

definition tolerance :: rat where
  "tolerance = 1 / 100"

definition amounts_match_of :: "rat \<Rightarrow> rat \<Rightarrow> bool" where
  "amounts_match_of invoice_val spreadsheet_val =
     (percentage_diff_of invoice_val spreadsheet_val \<le> tolerance)"

definition comparison_result_of :: "rat \<Rightarrow> rat \<Rightarrow> string" where
  "comparison_result_of invoice_val spreadsheet_val =
     (if amounts_match_of invoice_val spreadsheet_val
      then ''MATCH: Invoice amount $'' @ fmt_2f True invoice_val
        @ '' matches spreadsheet amount $'' @ fmt_2f True spreadsheet_val
        @ '' (difference: $'' @ fmt_2f True (difference_of invoice_val spreadsheet_val) @ '')''
      else ''MISMATCH: Invoice amount $'' @ fmt_2f True invoice_val
        @ '' does not match spreadsheet amount $'' @ fmt_2f True spreadsheet_val
        @ '' (difference: $'' @ fmt_2f True (difference_of invoice_val spreadsheet_val)
        @ '', '' @ fmt_2f False (percentage_diff_of invoice_val spreadsheet_val) @ ''%)'')"

definition comparison_thinking :: "rat \<Rightarrow> rat \<Rightarrow> string" where
  "comparison_thinking invoice_val spreadsheet_val =
     bullet @ '' Invoice numerical value: '' @ fmt_2f True invoice_val @ nl
     @ bullet @ '' Spreadsheet numerical value: '' @ fmt_2f True spreadsheet_val @ nl
     @ bullet @ '' Absolute difference: $''
       @ fmt_2f True (difference_of invoice_val spreadsheet_val) @ nl
     @ bullet @ '' Percentage difference: ''
       @ fmt_2f False (percentage_diff_of invoice_val spreadsheet_val) @ ''%'' @ nl
     @ bullet @ '' Tolerance threshold: '' @ py_str_float (tolerance * 100) @ ''%'' @ nl
     @ bullet @ '' Amounts match: ''
       @ py_str_bool (amounts_match_of invoice_val spreadsheet_val) @ nl
     @ nl @ bar_chart @ '' Comparison result: ''
       @ comparison_result_of invoice_val spreadsheet_val @ nl"

text \<open>The two conversions that open the \<^verbatim>\<open>try\<close> block; the first that raises ends it.\<close>

definition float_amounts :: "string \<Rightarrow> string \<Rightarrow> exn + rat \<times> rat" where
  "float_amounts invoice_text spreadsheet_text =
     (case py_float invoice_text of
        Inl e \<Rightarrow> Inl e
      | Inr invoice_val \<Rightarrow>
          (case py_float spreadsheet_text of
             Inl e \<Rightarrow> Inl e
           | Inr spreadsheet_val \<Rightarrow> Inr (invoice_val, spreadsheet_val)))"

definition compare_amounts_body :: "ReconciliationState \<Rightarrow> ReconciliationState \<times> string" where
  "compare_amounts_body st0 =
     (let st = st0\<lparr>workflow_step := ''compare_amounts''\<rparr>;
          thinking0 = nl @ scales @ '' AMOUNT COMPARISON'' @ nl
            @ ''==================='' @ nl
            @ ''Invoice Amount: $'' @ invoice_amount st @ nl
            @ ''Spreadsheet Amount: $'' @ spreadsheet_amount st @ nl
            @ nl
            @ ''Performing comparison analysis...'' @ nl
      in case float_amounts (invoice_amount st) (spreadsheet_amount st) of
           Inr (invoice_val, spreadsheet_val) \<Rightarrow>
             (st\<lparr>reconciliation_result := comparison_result_of invoice_val spreadsheet_val\<rparr>,
              thinking0 @ comparison_thinking invoice_val spreadsheet_val)
         | Inl e \<Rightarrow>
             (st\<lparr>error := exn_str e,
                 reconciliation_result := ''Error comparing amounts: '' @ exn_str e\<rparr>,
              thinking0 @ nl @ cross_mark @ '' Error during amount comparison: ''
                @ exn_str e @ nl))"

definition compare_amounts_node ::
  "tracer \<Rightarrow> ReconciliationState \<Rightarrow> tracer \<times> (exn + ReconciliationState)" where
  "compare_amounts_node t st0 =
     (let (st1, thinking) = compare_amounts_body st0 in log_thinking t st1 ''comparison'' thinking)"

subsection \<open>\<^verbatim>\<open>generate_verdict_node\<close>\<close>

text \<open>The \<^verbatim>\<open>if\<close>/\<^verbatim>\<open>elif\<close>/\<^verbatim>\<open>else\<close> chain, in the order of the source: the test for
  \<^verbatim>\<open>"MATCH"\<close> comes first.\<close>

definition verdict_of :: "string \<Rightarrow> string" where
  "verdict_of reconciliation_result' =
     (if str_in ''MATCH'' reconciliation_result' then ''YES''
      else if str_in ''MISMATCH'' reconciliation_result' then ''NO''
      else ''INCONCLUSIVE'')"

definition reasoning_of :: "string \<Rightarrow> string" where
  "reasoning_of reconciliation_result' =
     (if str_in ''MATCH'' reconciliation_result'
      then ''The amounts from the invoice and spreadsheet match within acceptable tolerance.''
      else if str_in ''MISMATCH'' reconciliation_result'
      then ''The amounts from the invoice and spreadsheet do not match. Investigation required.''
      else ''Unable to determine match due to data processing errors.'')"

definition get_recommendation :: "string \<Rightarrow> string" where
  "get_recommendation v =
     (if v = ''YES'' then ''Amounts are reconciled. Proceed with processing.''
      else if v = ''NO''
      then ''Amounts do not match. Review source documents and resolve discrepancies before proceeding.''
      else ''Manual review required to determine data accuracy.'')"

definition verdict_statement_of :: "string \<Rightarrow> string" where
  "verdict_statement_of reconciliation_result' =
     nl @ ''RECONCILIATION VERDICT: '' @ verdict_of reconciliation_result' @ nl
     @ nl
     @ ''ANALYSIS:'' @ nl
     @ reasoning_of reconciliation_result' @ nl
     @ nl
     @ ''DETAILS:'' @ nl
     @ reconciliation_result' @ nl
     @ nl
     @ ''RECOMMENDATION:'' @ nl
     @ get_recommendation (verdict_of reconciliation_result') @ nl"

text \<open>Nothing inside the \<^verbatim>\<open>try\<close> of this node raises on strings, so the handler has no
  branch here.\<close>

definition generate_verdict_body :: "ReconciliationState \<Rightarrow> ReconciliationState \<times> string" where
  "generate_verdict_body st0 =
     (let st = st0\<lparr>workflow_step := ''generate_verdict''\<rparr>;
          thinking0 = nl @ scales @ '' VERDICT GENERATION'' @ nl
            @ ''===================='' @ nl
            @ ''Reconciliation Result: '' @ reconciliation_result st @ nl
            @ nl
            @ ''Generating final verdict...'' @ nl;
          thinking1 = thinking0 @ bullet @ '' Final verdict: ''
            @ verdict_of (reconciliation_result st) @ nl;
          thinking2 = thinking1 @ bullet @ '' Reasoning: ''
            @ reasoning_of (reconciliation_result st) @ nl;
          st1 = st\<lparr>verdict := verdict_statement_of (reconciliation_result st)\<rparr>;
          thinking3 = thinking2 @ nl @ check_mark @ '' Verdict generation completed'' @ nl
      in (st1, thinking3))"

definition generate_verdict_node ::
  "tracer \<Rightarrow> ReconciliationState \<Rightarrow> tracer \<times> (exn + ReconciliationState)" where
  "generate_verdict_node t st0 =
     (let (st1, thinking) = generate_verdict_body st0 in log_thinking t st1 ''verdict'' thinking)"

section \<open>The workflow graph\<close>

text \<open>\<^verbatim>\<open>_build_workflow\<close> registers three nodes, the entry point and three edges; the
  compiled graph runs the entry node and then follows the edges until \<^verbatim>\<open>END\<close>
  (\<open>None\<close>). An exception that leaves a node ends the run.\<close>

datatype node = parse_amounts | compare_amounts | generate_verdict

definition entry_point :: node where
  "entry_point = parse_amounts"

fun edge :: "node \<Rightarrow> node option" where
  "edge parse_amounts = Some compare_amounts"
| "edge compare_amounts = Some generate_verdict"
| "edge generate_verdict = None"

fun node_action ::
  "node \<Rightarrow> tracer \<Rightarrow> ReconciliationState \<Rightarrow> tracer \<times> (exn + ReconciliationState)" where
  "node_action parse_amounts = parse_amounts_node"
| "node_action compare_amounts = compare_amounts_node"
| "node_action generate_verdict = generate_verdict_node"

fun rank :: "node \<Rightarrow> nat" where
  "rank parse_amounts = 2"
| "rank compare_amounts = 1"
| "rank generate_verdict = 0"

function invoke_from ::
  "node \<Rightarrow> tracer \<Rightarrow> ReconciliationState \<Rightarrow> tracer \<times> (exn + ReconciliationState)" where
  "invoke_from n t st =
     (case node_action n t st of
        (t1, Inl e) \<Rightarrow> (t1, Inl e)
      | (t1, Inr st1) \<Rightarrow>
          (case edge n of None \<Rightarrow> (t1, Inr st1) | Some n1 \<Rightarrow> invoke_from n1 t1 st1))"
  by pat_completeness auto
termination
proof (relation "measure (\<lambda>(n, t, st). rank n)")
  show "wf (measure (\<lambda>(n, t, st). rank n))"
    by simp
next
  fix n :: node and t :: tracer and st :: ReconciliationState and n1 t1 st1 x y
  assume "edge n = Some n1"
  then show "((n1, t1, st1), (n, t, st)) \<in> measure (\<lambda>(n, t, st). rank n)"
    by (cases n) auto
qed

declare invoke_from.simps [simp del]

definition invoke :: "tracer \<Rightarrow> ReconciliationState \<Rightarrow> tracer \<times> (exn + ReconciliationState)" where
  "invoke t st = invoke_from entry_point t st"

section \<open>\<^verbatim>\<open>reconcile_amounts\<close>\<close>

definition initial_state :: "string \<Rightarrow> string \<Rightarrow> string \<Rightarrow> ReconciliationState" where
  "initial_state invoice spreadsheet tid =
     \<lparr>invoice_amount = invoice, spreadsheet_amount = spreadsheet,
      reconciliation_result = [], verdict = [], thinking_log = [],
      trace_id = tid, workflow_step = [], error = []\<rparr>"

definition reset_live_thinking :: "(string \<times> string) list" where
  "reset_live_thinking = [(''parsing'', []), (''comparison'', []), (''verdict'', [])]"

text \<open>A write \<^verbatim>\<open>self.trace_data[self.current_trace_id][key] = value\<close> under the guard
  \<^verbatim>\<open>if self.current_trace_id\<close>: \<open>upd\<close> is what the writes do to the entry; the
  subscript raises \<^verbatim>\<open>KeyError\<close> when the identifier has no entry.\<close>

definition write_current :: "tracer \<Rightarrow> (trace \<Rightarrow> trace) \<Rightarrow> tracer \<times> (exn + unit)" where
  "write_current t upd =
     (case current_trace_id t of
        None \<Rightarrow> (t, Inr ())
      | Some tid \<Rightarrow>
          (if tid = [] then (t, Inr ())
           else (case map_of (trace_data t) tid of
                   None \<Rightarrow> (t, Inl (KeyError (py_repr tid)))
                 | Some tr \<Rightarrow>
                     (t\<lparr>trace_data := AList.update tid (upd tr) (trace_data t)\<rparr>, Inr ()))))"

text \<open>The end of the \<^verbatim>\<open>try\<close> block: the trace is finalised with the end time, the
  verdict and a summary of the final state.\<close>

definition finalize_trace :: "tracer \<Rightarrow> ReconciliationState \<Rightarrow> tracer \<times> (exn + unit)" where
  "finalize_trace t final =
     (if truthy (current_trace_id t)
      then (let (now, t1) = datetime_now t
            in write_current t1
                 (\<lambda>tr. tr\<lparr>end_time := Some now, result := Some (verdict final),
                          final_state := Some \<lparr>final_workflow_step = workflow_step final,
                                                has_error = (error final \<noteq> []),
                                                final_verdict = verdict final,
                                                final_reconciliation_result =
                                                  reconciliation_result final\<rparr>\<rparr>))
      else (t, Inr ()))"

text \<open>The handler \<^verbatim>\<open>except Exception as e\<close> of \<^verbatim>\<open>reconcile_amounts\<close>.\<close>

definition record_failure :: "tracer \<Rightarrow> exn \<Rightarrow> tracer \<times> (exn + unit)" where
  "record_failure t e =
     (if truthy (current_trace_id t)
      then (let (now, t1) = datetime_now t
            in write_current t1 (\<lambda>tr. tr\<lparr>end_time := Some now, trace_error := Some (exn_str e)\<rparr>))
      else (t, Inr ()))"

text \<open>The \<^verbatim>\<open>try\<close> block of \<^verbatim>\<open>reconcile_amounts\<close>: the workflow, then the finalisation.\<close>

definition run_workflow :: "tracer \<Rightarrow> ReconciliationState \<Rightarrow> tracer \<times> (exn + string)" where
  "run_workflow t st =
     (case invoke t st of
        (t1, Inl e) \<Rightarrow> (t1, Inl e)
      | (t1, Inr final) \<Rightarrow>
          (case finalize_trace t1 final of
             (t2, Inl e) \<Rightarrow> (t2, Inl e)
           | (t2, Inr u) \<Rightarrow> (t2, Inr (verdict final))))"

text \<open>\<^verbatim>\<open>reconcile_amounts\<close> returns a string, or lets an exception raised inside its own
  handler escape (\<open>Inl\<close>).\<close>

definition reconcile_amounts :: "tracer \<Rightarrow> string \<Rightarrow> string \<Rightarrow> tracer \<times> (exn + string)" where
  "reconcile_amounts t invoice spreadsheet =
     (let (tid, t1) = create_trace_id t;
          t2 = t1\<lparr>live_thinking := reset_live_thinking\<rparr>
      in case run_workflow t2 (initial_state invoice spreadsheet tid) of
           (t3, Inr v) \<Rightarrow> (t3, Inr v)
         | (t3, Inl e) \<Rightarrow>
             (case record_failure t3 e of
                (t4, Inl e1) \<Rightarrow> (t4, Inl e1)
              | (t4, Inr u) \<Rightarrow> (t4, Inr (''Error during reconciliation: '' @ exn_str e))))"

section \<open>Reading the trace store\<close>

text \<open>\<^verbatim>\<open>_calculate_duration\<close>: \<^verbatim>\<open>None\<close> unless both times are set.\<close>

definition calculate_duration :: "trace \<Rightarrow> rat option" where
  "calculate_duration tr =
     (case end_time tr of
        None \<Rightarrow> None
      | Some e \<Rightarrow> Some (seconds e - seconds (start_time tr)))"

record observability =
  total_workflow_steps :: nat
  execution_duration :: "rat option"
  state_transitions_count :: nat
  thinking_process_length :: nat
  trace_success_rate :: rat

definition observability_of :: "trace \<Rightarrow> observability" where
  "observability_of tr =
     \<lparr>total_workflow_steps = length (workflow_steps tr),
      execution_duration = calculate_duration tr,
      state_transitions_count = length (state_transitions tr),
      thinking_process_length = sum_list (map (\<lambda>s. py_len (thinking s)) (workflow_steps tr)),
      trace_success_rate = (if truthy (trace_error tr) then 0 else 1)\<rparr>"

text \<open>\<^verbatim>\<open>get_trace\<close>: the stored trace with its observability block, or \<^verbatim>\<open>None\<close>.\<close>

definition get_trace :: "tracer \<Rightarrow> string option \<Rightarrow> (trace \<times> observability) option" where
  "get_trace t trace_id_arg =
     (let tid = (if truthy trace_id_arg then trace_id_arg else current_trace_id t)
      in case tid of
           None \<Rightarrow> None
         | Some i \<Rightarrow>
             (if i = [] then None
              else (case map_of (trace_data t) i of
                      None \<Rightarrow> None
                    | Some tr \<Rightarrow> Some (tr, observability_of tr))))"

record metrics =
  total_executions :: nat
  success_rate :: rat
  failure_rate :: rat
  average_duration :: rat
  min_duration :: rat
  max_duration :: rat
  total_thinking_steps :: nat

text \<open>\<^verbatim>\<open>[d for d in durations if d is not None]\<close>\<close>

definition valid_durations_of :: "trace list \<Rightarrow> rat list" where
  "valid_durations_of traces = concat (map (\<lambda>tr. case calculate_duration tr of None \<Rightarrow> [] | Some d \<Rightarrow> [d]) traces)"

text \<open>\<^verbatim>\<open>get_workflow_metrics\<close>; \<open>None\<close> is the empty dictionary returned for an empty
  store.\<close>

definition get_workflow_metrics :: "tracer \<Rightarrow> metrics option" where
  "get_workflow_metrics t =
     (if trace_data t = [] then None
      else let traces = map snd (trace_data t);
               total_traces = length traces;
               successful_traces = filter (\<lambda>tr. \<not> truthy (trace_error tr)) traces;
               failed_traces = filter (\<lambda>tr. truthy (trace_error tr)) traces;
               valid_durations = valid_durations_of traces
           in Some
             \<lparr>total_executions = total_traces,
              success_rate = (if total_traces > 0
                then of_nat (length successful_traces) / of_nat total_traces else 0),
              failure_rate = (if total_traces > 0
                then of_nat (length failed_traces) / of_nat total_traces else 0),
              average_duration = (if valid_durations = [] then 0
                else sum_list valid_durations / of_nat (length valid_durations)),
              min_duration = (case valid_durations of [] \<Rightarrow> 0 | d # ds \<Rightarrow> foldl min d ds),
              max_duration = (case valid_durations of [] \<Rightarrow> 0 | d # ds \<Rightarrow> foldl max d ds),
              total_thinking_steps = sum_list (map (\<lambda>tr. length (workflow_steps tr)) traces)\<rparr>)"

section \<open>\<^verbatim>\<open>export_trace_to_json\<close>\<close>

text \<open>The file system is an input: for a path, the exception that \<^verbatim>\<open>os.makedirs\<close>
  (with \<^verbatim>\<open>exist_ok=True\<close>) or the write of the file raises there, if any.
  \<^verbatim>\<open>os.makedirs('')\<close> raises \<^verbatim>\<open>FileNotFoundError\<close> on every file system.\<close>

record filesystem =
  makedirs_raises :: "string \<Rightarrow> exn option"
  write_raises :: "string \<Rightarrow> exn option"

definition os_makedirs :: "filesystem \<Rightarrow> string \<Rightarrow> exn option" where
  "os_makedirs fs d =
     (if d = [] then Some (FileNotFoundError (''[Errno 2] No such file or directory: '' @ py_repr d))
      else makedirs_raises fs d)"

text \<open>\<^verbatim>\<open>os.path.dirname\<close> (POSIX): the text up to the last slash, without trailing
  slashes unless it consists of slashes only.\<close>

definition dirname :: "string \<Rightarrow> string" where
  "dirname p =
     (let head = rev (dropWhile (\<lambda>c. c \<noteq> CHR ''/'') (rev p))
      in if filter (\<lambda>c. c \<noteq> CHR ''/'') head = [] then head
         else rev (dropWhile (\<lambda>c. c = CHR ''/'') (rev head)))"

record export_document =
  doc_trace_data :: "trace \<times> observability"
  doc_workflow_metrics :: "metrics option"
  doc_export_timestamp :: datetime
  doc_langraph_version :: string

text \<open>The outcome of an export: what the call returns (\<open>Inl\<close> for an exception that
  leaves it) and the file it wrote, if any.\<close>

record export_outcome =
  returned :: "exn + bool"
  written :: "(string \<times> export_document) option"

text \<open>The path of the export: the argument, or the default built from the trace
  identifier.\<close>

definition export_file_path :: "tracer \<Rightarrow> string option \<Rightarrow> string option \<Rightarrow> string" where
  "export_file_path t trace_id_arg file_path_arg =
     (if truthy file_path_arg then (case file_path_arg of Some p \<Rightarrow> p | None \<Rightarrow> [])
      else ''output/''
        @ py_str_opt_str (if truthy trace_id_arg then trace_id_arg else current_trace_id t)
        @ ''_reconciliation_enhanced.json'')"

definition export_trace_to_json ::
  "tracer \<Rightarrow> filesystem \<Rightarrow> string option \<Rightarrow> string option \<Rightarrow> tracer \<times> export_outcome" where
  "export_trace_to_json t fs trace_id_arg file_path_arg =
     (case get_trace t trace_id_arg of
        None \<Rightarrow> (t, \<lparr>returned = Inr False, written = None\<rparr>)
      | Some tr \<Rightarrow>
          (let file_path = export_file_path t trace_id_arg file_path_arg
           in case os_makedirs fs (dirname file_path) of
                Some e \<Rightarrow> (t, \<lparr>returned = Inl e, written = None\<rparr>)
              | None \<Rightarrow>
                  (let metrics_now = get_workflow_metrics t;
                       (now, t1) = datetime_now t;
                       enhanced_export =
                         \<lparr>doc_trace_data = tr, doc_workflow_metrics = metrics_now,
                          doc_export_timestamp = now,
                          doc_langraph_version = ''reconciliation_enhanced_tracing''\<rparr>
                   in case write_raises fs file_path of
                        None \<Rightarrow> (t1, \<lparr>returned = Inr True,
                                       written = Some (file_path, enhanced_export)\<rparr>)
                      | Some e \<Rightarrow> (t1, \<lparr>returned = Inr False, written = None\<rparr>))))"

section \<open>Specification devices\<close>

text \<open>The language of a sequence of quantified character classes, independent of the
  order in which the matcher tries the alternatives: \<open>accepts items m\<close> holds when the
  text \<open>m\<close> as a whole is matched by \<open>items\<close>.\<close>

fun accepts :: "item list \<Rightarrow> string \<Rightarrow> bool" where
  "accepts [] m = (m = [])"
| "accepts (Opt cls # items) m =
     (accepts items m \<or> (case m of [] \<Rightarrow> False | c # m1 \<Rightarrow> c \<in> set cls \<and> accepts items m1))"
| "accepts (Star cls # items) m =
     list_ex (\<lambda>k. list_all (\<lambda>c. c \<in> set cls) (take k m) \<and> accepts items (drop k m)) [0 ..< Suc (length m)]"
| "accepts (Plus cls # items) m =
     list_ex (\<lambda>k. list_all (\<lambda>c. c \<in> set cls) (take k m) \<and> accepts items (drop k m)) [1 ..< Suc (length m)]"

text \<open>The tracer \<open>t\<close> has \<open>tid\<close> as its current trace, and the store holds \<open>tr\<close> under
  that identifier.\<close>

definition tracking :: "tracer \<Rightarrow> string \<Rightarrow> trace \<Rightarrow> bool" where
  "tracking t tid tr =
     (current_trace_id t = Some tid \<and> tid \<noteq> [] \<and> map_of (trace_data t) tid = Some tr)"

text \<open>The three nodes by name: the computation of a node on the state, the key under
  which it logs, and the name under which the graph registers it.\<close>

fun node_body :: "node \<Rightarrow> ReconciliationState \<Rightarrow> ReconciliationState \<times> string" where
  "node_body parse_amounts = parse_amounts_body"
| "node_body compare_amounts = compare_amounts_body"
| "node_body generate_verdict = generate_verdict_body"

fun step_name :: "node \<Rightarrow> string" where
  "step_name parse_amounts = ''parsing''"
| "step_name compare_amounts = ''comparison''"
| "step_name generate_verdict = ''verdict''"

fun node_label :: "node \<Rightarrow> string" where
  "node_label parse_amounts = ''parse_amounts''"
| "node_label compare_amounts = ''compare_amounts''"
| "node_label generate_verdict = ''generate_verdict''"

text \<open>What a node hands to the next one (its computation, with the narration filed in
  the thinking log under the key of the node), and the entry that it appends to the
  steps of the current trace when the clock reads \<open>now\<close>.\<close>

definition node_state :: "node \<Rightarrow> ReconciliationState \<Rightarrow> ReconciliationState" where
  "node_state n st =
     (fst (node_body n st))\<lparr>thinking_log :=
        AList.update (step_name n) (snd (node_body n st)) (thinking_log (fst (node_body n st)))\<rparr>"

definition node_entry :: "node \<Rightarrow> datetime \<Rightarrow> ReconciliationState \<Rightarrow> step_entry" where
  "node_entry n now st =
     \<lparr>step = step_name n, timestamp = now, thinking = snd (node_body n st),
      snapshot = snapshot_of (fst (node_body n st))\<rparr>"

text \<open>A trace with further entries appended to its steps.\<close>

definition add_steps :: "trace \<Rightarrow> step_entry list \<Rightarrow> trace" where
  "add_steps tr es = tr\<lparr>workflow_steps := workflow_steps tr @ es\<rparr>"

text \<open>The summary that \<^verbatim>\<open>compare_amounts_node\<close> stores for two parsed amounts.\<close>

definition compare_text :: "string \<Rightarrow> string \<Rightarrow> string" where
  "compare_text invoice_text spreadsheet_text =
     (case float_amounts invoice_text spreadsheet_text of
        Inr (invoice_val, spreadsheet_val) \<Rightarrow> comparison_result_of invoice_val spreadsheet_val
      | Inl e \<Rightarrow> ''Error comparing amounts: '' @ exn_str e)"

text \<open>The state at the end of the three nodes, the summary of it that
  \<^verbatim>\<open>reconcile_amounts\<close> stores under \<^verbatim>\<open>"final_state"\<close>, and the sealed trace of a whole
  run started on the tracer \<open>t\<close>: the clock is read once for the start time, once by
  each node and once for the end time.\<close>

definition final_state_of :: "string \<Rightarrow> string \<Rightarrow> string \<Rightarrow> ReconciliationState" where
  "final_state_of invoice spreadsheet tid =
     node_state generate_verdict (node_state compare_amounts (node_state parse_amounts
       (initial_state invoice spreadsheet tid)))"

definition final_state_entry_of :: "ReconciliationState \<Rightarrow> final_state_entry" where
  "final_state_entry_of final =
     \<lparr>final_workflow_step = workflow_step final, has_error = (error final \<noteq> []),
      final_verdict = verdict final,
      final_reconciliation_result = reconciliation_result final\<rparr>"

definition run_trace :: "tracer \<Rightarrow> string \<Rightarrow> string \<Rightarrow> trace" where
  "run_trace t invoice spreadsheet =
     (let s0 = initial_state invoice spreadsheet (fst (create_trace_id t));
          s1 = node_state parse_amounts s0;
          s2 = node_state compare_amounts s1;
          s3 = node_state generate_verdict s2
      in \<lparr>workflow_steps =
            [node_entry parse_amounts (clock t (ticks t + 2)) s0,
             node_entry compare_amounts (clock t (ticks t + 3)) s1,
             node_entry generate_verdict (clock t (ticks t + 4)) s2],
          start_time = clock t (ticks t + 1),
          end_time = Some (clock t (ticks t + 5)),
          result = Some (verdict s3),
          state_transitions = [],
          trace_error = None,
          final_state = Some (final_state_entry_of s3)\<rparr>)"

text \<open>A clock for the examples: every reading falls in the same second, reading \<open>k\<close> at
  \<open>k\<close> seconds.\<close>

definition sample_clock :: "nat \<Rightarrow> datetime" where
  "sample_clock k = \<lparr>strftime_text = ''20240101_120000'', seconds = of_nat k\<rparr>"

text \<open>The number of traces in the store, and the number of those whose \<^verbatim>\<open>"error"\<close> key
  is set to a non-empty text (\<^verbatim>\<open>trace.get('error')\<close> is true).\<close>

definition recorded_runs :: "tracer \<Rightarrow> nat" where
  "recorded_runs t = length (trace_data t)"

definition failed_runs :: "tracer \<Rightarrow> nat" where
  "failed_runs t = length (filter (\<lambda>tr. truthy (trace_error tr)) (map snd (trace_data t)))"

text \<open>A store of four finished traces, one of them with a non-empty error and one with
  an empty one.\<close>

definition sample_trace :: "string option \<Rightarrow> trace" where
  "sample_trace err = (new_trace (sample_clock 0))\<lparr>end_time := Some (sample_clock 1),
     trace_error := err\<rparr>"

definition sample_store :: tracer where
  "sample_store = (init_tracer sample_clock)\<lparr>trace_data :=
     [(''a'', sample_trace None), (''b'', sample_trace (Some ''boom'')),
      (''c'', sample_trace None), (''d'', sample_trace (Some []))]\<rparr>"

text \<open>Two file systems for the examples: one where every directory can be made and every
  file written, one where every write fails.\<close>

definition permissive_fs :: filesystem where
  "permissive_fs = \<lparr>makedirs_raises = (\<lambda>d. None), write_raises = (\<lambda>p. None)\<rparr>"

definition read_only_fs :: filesystem where
  "read_only_fs = \<lparr>makedirs_raises = (\<lambda>d. None),
     write_raises = (\<lambda>p. Some (OSError ''[Errno 30] Read-only file system''))\<rparr>"

section \<open>Evaluation rules\<close>

lemmas fmt_eval = fmt_2f_def round_half_even_def group_thousands.simps nat_str.simps
  digit_char_def digit_chars_def Let_def

lemmas float_eval = py_float_def strip_def is_space_def is_digit_def digits_val_def digit_val_def

section \<open>The matcher is sound for the language of its pattern\<close>

lemma accepts_StarI: "set ds \<subseteq> set cls \<Longrightarrow> accepts items m \<Longrightarrow> accepts (Star cls # items) (ds @ m)"
  apply (simp add: list_ex_iff list_all_iff del: upt_Suc)
  apply (rule bexI [of _ "length ds"])
   apply auto
  done

lemma accepts_Star_Cons: "c \<in> set cls \<Longrightarrow> accepts (Star cls # items) m \<Longrightarrow> accepts (Star cls # items) (c # m)"
  apply (simp add: list_ex_iff list_all_iff del: upt_Suc)
  apply (erule bexE)
  subgoal for k
    apply (rule bexI [of _ "Suc k"])
     apply auto
    done
  done

lemma accepts_Star_skip: "accepts items m \<Longrightarrow> accepts (Star cls # items) m"
  using accepts_StarI [of "[]" cls items m] by simp

lemma accepts_Plus_Cons: "c \<in> set cls \<Longrightarrow> accepts (Star cls # items) m \<Longrightarrow> accepts (Plus cls # items) (c # m)"
  apply (simp add: list_ex_iff list_all_iff del: upt_Suc)
  apply (erule bexE)
  subgoal for k
    apply (rule bexI [of _ "Suc k"])
     apply auto
    done
  done

lemma rmatch_sound:
  "rmatch items s = Some r \<Longrightarrow> \<exists>m. s = m @ r \<and> accepts items m"
proof (induction items s arbitrary: r rule: rmatch.induct)
  case (1 s)
  then show ?case by simp
next
  case (2 cls items)
  then show ?case by (auto simp del: accepts.simps(3,4)) 
next
  case (3 cls items c cs)
  show ?case
  proof (cases "c \<in> set cls")
    case True
    show ?thesis
    proof (cases "rmatch items cs")
      case None
      with 3 True obtain m where "c # cs = m @ r" "accepts items m" by auto
      then show ?thesis by auto
    next
      case (Some r')
      with 3 True have "r' = r" by simp
      with 3(1) [OF True] Some obtain m where "cs = m @ r" "accepts items m" by auto
      then have "c # cs = (c # m) @ r \<and> accepts (Opt cls # items) (c # m)" using True by simp
      then show ?thesis by blast
    qed
  next
    case False
    with 3 obtain m where "c # cs = m @ r" "accepts items m" by auto
    then show ?thesis by auto
  qed
next
  case (4 cls items)
  then obtain m where "[] = m @ r" "accepts items m" by auto
  then show ?case using accepts_Star_skip by blast
next
  case (5 cls items c cs)
  show ?case
  proof (cases "c \<in> set cls")
    case True
    show ?thesis
    proof (cases "rmatch (Star cls # items) cs")
      case None
      with 5 True obtain m where "c # cs = m @ r" "accepts items m" by auto
      then show ?thesis using accepts_Star_skip by blast
    next
      case (Some r')
      with 5 True have "r' = r" by simp
      with 5(1) [OF True] Some obtain m where "cs = m @ r" "accepts (Star cls # items) m" by auto
      then have "c # cs = (c # m) @ r \<and> accepts (Star cls # items) (c # m)"
        using True accepts_Star_Cons by simp
      then show ?thesis by blast
    qed
  next
    case False
    with 5 obtain m where "c # cs = m @ r" "accepts items m" by auto
    then show ?thesis using accepts_Star_skip by blast
  qed
next
  case (6 cls items)
  then show ?case by simp
next
  case (7 cls items c cs)
  then have True: "c \<in> set cls" and "rmatch (Star cls # items) cs = Some r"
    by (auto split: if_splits)
  with 7(1) obtain m where "cs = m @ r" "accepts (Star cls # items) m" by auto
  then have "c # cs = (c # m) @ r \<and> accepts (Plus cls # items) (c # m)"
    using True accepts_Plus_Cons by simp
  then show ?case by blast
qed

section \<open>Every match of the number pattern converts to a float\<close>

lemma rmatch_suffix: "rmatch items s = Some r \<Longrightarrow> length r \<le> length s"
  using rmatch_sound [of items s r] by auto


















section \<open>What \<^verbatim>\<open>_extract_number\<close> returns\<close>







lemmas clean_eval = cleaned_of_def strip_def is_space_def euro_sign_def pound_sign_def
lemmas findall_eval = findall.simps number_pattern_def digit_chars_def






section \<open>Logging into the current trace\<close>

lemma map_of_update_same: "map_of (AList.update k v al) k = Some v"
  by (simp add: update_conv')

lemma create_trace_id_fst:
  "fst (create_trace_id t) = ''reconciliation_trace_'' @ strftime_text (clock t (ticks t))"
  by (simp add: create_trace_id_def datetime_now_def Let_def)

lemma create_trace_id_tracking:
  "tracking (snd (create_trace_id t)) (fst (create_trace_id t)) (new_trace (clock t (Suc (ticks t))))"
  by (simp add: create_trace_id_def datetime_now_def Let_def tracking_def map_of_update_same)

lemma create_trace_id_clock:
  "clock (snd (create_trace_id t)) = clock t" "ticks (snd (create_trace_id t)) = Suc (Suc (ticks t))"
  by (simp_all add: create_trace_id_def datetime_now_def Let_def)

lemma log_thinking_tracking:
  assumes "tracking t tid tr"
  shows "\<exists>t'. log_thinking t st nm th =
           (t', Inr (st\<lparr>thinking_log := AList.update nm th (thinking_log st)\<rparr>))
         \<and> tracking t' tid (add_steps tr [\<lparr>step = nm, timestamp = clock t (ticks t), thinking = th,
                                          snapshot = snapshot_of st\<rparr>])
         \<and> clock t' = clock t \<and> ticks t' = Suc (ticks t)"
  using assms
  by (simp add: log_thinking_def tracking_def truthy_def datetime_now_def Let_def
      snapshot_of_def add_steps_def map_of_update_same)

lemma node_action_body:
  "node_action n t st = log_thinking t (fst (node_body n st)) (step_name n) (snd (node_body n st))"
  by (cases n)
    (simp_all add: parse_amounts_node_def compare_amounts_node_def generate_verdict_node_def
      split_beta)

lemma node_action_tracking:
  assumes "tracking t tid tr"
  shows "\<exists>t'. node_action n t st = (t', Inr (node_state n st))
         \<and> tracking t' tid (add_steps tr [node_entry n (clock t (ticks t)) st])
         \<and> clock t' = clock t \<and> ticks t' = Suc (ticks t)"
  using log_thinking_tracking [OF assms, of "fst (node_body n st)" "step_name n" "snd (node_body n st)"]
  by (simp add: node_action_body node_state_def node_entry_def)

lemma add_steps_add_steps: "add_steps (add_steps tr xs) ys = add_steps tr (xs @ ys)"
  by (simp add: add_steps_def)

lemma invoke_from_verdict:
  assumes "tracking t tid tr"
  shows "\<exists>t'. invoke_from generate_verdict t st = (t', Inr (node_state generate_verdict st))
         \<and> tracking t' tid (add_steps tr [node_entry generate_verdict (clock t (ticks t)) st])
         \<and> clock t' = clock t \<and> ticks t' = Suc (ticks t)"
proof -
  from node_action_tracking [OF assms, of generate_verdict st] obtain t' where
    "node_action generate_verdict t st = (t', Inr (node_state generate_verdict st))"
    "tracking t' tid (add_steps tr [node_entry generate_verdict (clock t (ticks t)) st])"
    "clock t' = clock t" "ticks t' = Suc (ticks t)"
    by blast
  then show ?thesis
    by (subst invoke_from.simps) simp
qed

lemma invoke_from_compare:
  assumes "tracking t tid tr"
  shows "\<exists>t'. invoke_from compare_amounts t st =
           (t', Inr (node_state generate_verdict (node_state compare_amounts st)))
         \<and> tracking t' tid (add_steps tr
             [node_entry compare_amounts (clock t (ticks t)) st,
              node_entry generate_verdict (clock t (Suc (ticks t))) (node_state compare_amounts st)])
         \<and> clock t' = clock t \<and> ticks t' = Suc (Suc (ticks t))"
proof -
  from node_action_tracking [OF assms, of compare_amounts st] obtain t1 where 1:
    "node_action compare_amounts t st = (t1, Inr (node_state compare_amounts st))"
    "tracking t1 tid (add_steps tr [node_entry compare_amounts (clock t (ticks t)) st])"
    "clock t1 = clock t" "ticks t1 = Suc (ticks t)"
    by blast
  from invoke_from_verdict [OF 1(2), of "node_state compare_amounts st"] obtain t2 where 2:
    "invoke_from generate_verdict t1 (node_state compare_amounts st) =
       (t2, Inr (node_state generate_verdict (node_state compare_amounts st)))"
    "tracking t2 tid (add_steps (add_steps tr [node_entry compare_amounts (clock t (ticks t)) st])
       [node_entry generate_verdict (clock t1 (ticks t1)) (node_state compare_amounts st)])"
    "clock t2 = clock t1" "ticks t2 = Suc (ticks t1)"
    by blast
  from 1 2 show ?thesis
    by (subst invoke_from.simps) (simp add: add_steps_add_steps)
qed

lemma invoke_tracking:
  assumes "tracking t tid tr"
  shows "\<exists>t'. invoke t st =
           (t', Inr (node_state generate_verdict (node_state compare_amounts
                      (node_state parse_amounts st))))
         \<and> tracking t' tid (add_steps tr
             [node_entry parse_amounts (clock t (ticks t)) st,
              node_entry compare_amounts (clock t (Suc (ticks t))) (node_state parse_amounts st),
              node_entry generate_verdict (clock t (Suc (Suc (ticks t))))
                (node_state compare_amounts (node_state parse_amounts st))])
         \<and> clock t' = clock t \<and> ticks t' = Suc (Suc (Suc (ticks t)))"
proof -
  from node_action_tracking [OF assms, of parse_amounts st] obtain t1 where 1:
    "node_action parse_amounts t st = (t1, Inr (node_state parse_amounts st))"
    "tracking t1 tid (add_steps tr [node_entry parse_amounts (clock t (ticks t)) st])"
    "clock t1 = clock t" "ticks t1 = Suc (ticks t)"
    by blast
  from invoke_from_compare [OF 1(2), of "node_state parse_amounts st"] obtain t2 where 2:
    "invoke_from compare_amounts t1 (node_state parse_amounts st) =
       (t2, Inr (node_state generate_verdict (node_state compare_amounts
                  (node_state parse_amounts st))))"
    "tracking t2 tid (add_steps (add_steps tr [node_entry parse_amounts (clock t (ticks t)) st])
       [node_entry compare_amounts (clock t1 (ticks t1)) (node_state parse_amounts st),
        node_entry generate_verdict (clock t1 (Suc (ticks t1)))
          (node_state compare_amounts (node_state parse_amounts st))])"
    "clock t2 = clock t1" "ticks t2 = Suc (Suc (ticks t1))"
    by blast
  from 1 2 show ?thesis
    unfolding invoke_def entry_point_def
    by (subst invoke_from.simps) (simp add: add_steps_add_steps)
qed

section \<open>A run of the workflow\<close>

lemma write_current_tracking:
  assumes "tracking t tid tr"
  shows "\<exists>t'. write_current t upd = (t', Inr ()) \<and> tracking t' tid (upd tr)
         \<and> clock t' = clock t \<and> ticks t' = ticks t"
  using assms by (simp add: write_current_def tracking_def map_of_update_same)

lemma tracking_ticks: "tracking (t\<lparr>ticks := k\<rparr>) tid tr = tracking t tid tr"
  by (simp add: tracking_def)

lemma tracking_live_thinking: "tracking (t\<lparr>live_thinking := l\<rparr>) tid tr = tracking t tid tr"
  by (simp add: tracking_def)

lemma tracking_truthy: "tracking t tid tr \<Longrightarrow> truthy (current_trace_id t)"
  by (simp add: tracking_def truthy_def)

lemma finalize_trace_tracking:
  assumes "tracking t tid tr"
  shows "\<exists>t'. finalize_trace t final = (t', Inr ())
         \<and> tracking t' tid (tr\<lparr>end_time := Some (clock t (ticks t)), result := Some (verdict final),
                                final_state := Some (final_state_entry_of final)\<rparr>)
         \<and> clock t' = clock t \<and> ticks t' = Suc (ticks t)"
proof -
  let ?t1 = "t\<lparr>ticks := Suc (ticks t)\<rparr>"
  have "tracking ?t1 tid tr"
    using assms by (simp add: tracking_ticks)
  from write_current_tracking [OF this] obtain t' where
    "write_current ?t1 (\<lambda>tr. tr\<lparr>end_time := Some (clock t (ticks t)), result := Some (verdict final),
        final_state := Some (final_state_entry_of final)\<rparr>) = (t', Inr ())"
    "tracking t' tid (tr\<lparr>end_time := Some (clock t (ticks t)), result := Some (verdict final),
        final_state := Some (final_state_entry_of final)\<rparr>)"
    "clock t' = clock ?t1" "ticks t' = ticks ?t1"
    by blast
  then show ?thesis
    using tracking_truthy [OF assms]
    by (simp add: finalize_trace_def datetime_now_def final_state_entry_of_def)
qed

lemma run_workflow_tracking:
  assumes "tracking t tid tr"
  shows "\<exists>t'. run_workflow t st =
           (t', Inr (verdict (node_state generate_verdict (node_state compare_amounts
                      (node_state parse_amounts st)))))
         \<and> tracking t' tid ((add_steps tr
             [node_entry parse_amounts (clock t (ticks t)) st,
              node_entry compare_amounts (clock t (Suc (ticks t))) (node_state parse_amounts st),
              node_entry generate_verdict (clock t (Suc (Suc (ticks t))))
                (node_state compare_amounts (node_state parse_amounts st))])
             \<lparr>end_time := Some (clock t (Suc (Suc (Suc (ticks t))))),
              result := Some (verdict (node_state generate_verdict (node_state compare_amounts
                      (node_state parse_amounts st)))),
              final_state := Some (final_state_entry_of (node_state generate_verdict
                 (node_state compare_amounts (node_state parse_amounts st))))\<rparr>)"
proof -
  let ?final = "node_state generate_verdict (node_state compare_amounts (node_state parse_amounts st))"
  let ?tr3 = "add_steps tr
             [node_entry parse_amounts (clock t (ticks t)) st,
              node_entry compare_amounts (clock t (Suc (ticks t))) (node_state parse_amounts st),
              node_entry generate_verdict (clock t (Suc (Suc (ticks t))))
                (node_state compare_amounts (node_state parse_amounts st))]"
  from invoke_tracking [OF assms, of st] obtain t3 where 3:
    "invoke t st = (t3, Inr ?final)" "tracking t3 tid ?tr3"
    "clock t3 = clock t" "ticks t3 = Suc (Suc (Suc (ticks t)))"
    by blast
  from finalize_trace_tracking [OF 3(2), of ?final] obtain t4 where 4:
    "finalize_trace t3 ?final = (t4, Inr ())"
    "tracking t4 tid (?tr3\<lparr>end_time := Some (clock t3 (ticks t3)), result := Some (verdict ?final),
                                final_state := Some (final_state_entry_of ?final)\<rparr>)"
    by blast
  from 3 4 show ?thesis
    by (simp add: run_workflow_def)
qed

lemma reconcile_amounts_run:
  "\<exists>t'. reconcile_amounts t invoice spreadsheet =
          (t', Inr (verdict (final_state_of invoice spreadsheet (fst (create_trace_id t)))))
        \<and> tracking t' (fst (create_trace_id t)) (run_trace t invoice spreadsheet)"
proof -
  let ?tid = "fst (create_trace_id t)"
  let ?t1 = "snd (create_trace_id t)"
  let ?t2 = "?t1\<lparr>live_thinking := reset_live_thinking\<rparr>"
  let ?s0 = "initial_state invoice spreadsheet ?tid"
  have tr: "tracking ?t2 ?tid (new_trace (clock t (Suc (ticks t))))"
    using create_trace_id_tracking [of t] by (simp add: tracking_live_thinking)
  have ck: "clock ?t2 = clock t" "ticks ?t2 = Suc (Suc (ticks t))"
    by (simp_all add: create_trace_id_clock)
  from run_workflow_tracking [OF tr, of ?s0] obtain t' where r:
    "run_workflow ?t2 ?s0 = (t', Inr (verdict (final_state_of invoice spreadsheet ?tid)))"
    "tracking t' ?tid (run_trace t invoice spreadsheet)"
    unfolding ck final_state_of_def
    by (auto simp: run_trace_def Let_def add_steps_def new_trace_def eval_nat_numeral)
  have "reconcile_amounts t invoice spreadsheet =
      (case run_workflow ?t2 ?s0 of
           (t3, Inr v) \<Rightarrow> (t3, Inr v)
         | (t3, Inl e) \<Rightarrow>
             (case record_failure t3 e of
                (t4, Inl e1) \<Rightarrow> (t4, Inl e1)
              | (t4, Inr u) \<Rightarrow> (t4, Inr (''Error during reconciliation: '' @ exn_str e))))"
    by (simp add: reconcile_amounts_def split_beta Let_def)
  with r show ?thesis
    by simp
qed

section \<open>The states of a run and the returned report\<close>

lemma parse_state_fields:
  "workflow_step (node_state parse_amounts st) = ''parse_amounts''"
  "invoice_amount (node_state parse_amounts st) = parsed_amount (extract_number (invoice_amount st))"
  "spreadsheet_amount (node_state parse_amounts st) =
     parsed_amount (extract_number (spreadsheet_amount st))"
  "reconciliation_result (node_state parse_amounts st) = reconciliation_result st"
  "verdict (node_state parse_amounts st) = verdict st"
  "trace_id (node_state parse_amounts st) = trace_id st"
  "error (node_state parse_amounts st) = error st"
  by (simp_all add: node_state_def parse_amounts_body_def Let_def)

lemma compare_state_fields:
  "workflow_step (node_state compare_amounts st) = ''compare_amounts''"
  "invoice_amount (node_state compare_amounts st) = invoice_amount st"
  "spreadsheet_amount (node_state compare_amounts st) = spreadsheet_amount st"
  "reconciliation_result (node_state compare_amounts st) =
     compare_text (invoice_amount st) (spreadsheet_amount st)"
  "verdict (node_state compare_amounts st) = verdict st"
  "trace_id (node_state compare_amounts st) = trace_id st"
  "error (node_state compare_amounts st) =
     (case float_amounts (invoice_amount st) (spreadsheet_amount st) of
        Inl e \<Rightarrow> exn_str e | Inr p \<Rightarrow> error st)"
  by (simp_all add: node_state_def compare_amounts_body_def compare_text_def Let_def
      split: sum.splits prod.splits)

lemma verdict_state_fields:
  "workflow_step (node_state generate_verdict st) = ''generate_verdict''"
  "invoice_amount (node_state generate_verdict st) = invoice_amount st"
  "spreadsheet_amount (node_state generate_verdict st) = spreadsheet_amount st"
  "reconciliation_result (node_state generate_verdict st) = reconciliation_result st"
  "verdict (node_state generate_verdict st) = verdict_statement_of (reconciliation_result st)"
  "trace_id (node_state generate_verdict st) = trace_id st"
  "error (node_state generate_verdict st) = error st"
  by (simp_all add: node_state_def generate_verdict_body_def Let_def)

lemmas node_state_fields = parse_state_fields compare_state_fields verdict_state_fields

lemma node_state_trace_id: "trace_id (node_state n st) = trace_id st"
  by (cases n) (simp_all add: node_state_fields)

lemma node_state_workflow_step: "workflow_step (node_state n st) = node_label n"
  by (cases n) (simp_all add: node_state_fields)

lemma node_entry_fields:
  "step (node_entry n now st) = step_name n"
  "timestamp (node_entry n now st) = now"
  "snap_workflow_step (snapshot (node_entry n now st)) = workflow_step (node_state n st)"
  "snap_invoice_amount (snapshot (node_entry n now st)) = invoice_amount (node_state n st)"
  "snap_spreadsheet_amount (snapshot (node_entry n now st)) = spreadsheet_amount (node_state n st)"
  "snap_verdict (snapshot (node_entry n now st)) = verdict (node_state n st)"
  by (simp_all add: node_entry_def snapshot_of_def node_state_def)

lemma final_state_of_verdict:
  "verdict (final_state_of invoice spreadsheet tid) =
     verdict_statement_of (compare_text (parsed_amount (extract_number invoice))
       (parsed_amount (extract_number spreadsheet)))"
  by (simp add: final_state_of_def node_state_fields initial_state_def)

lemma reconcile_amounts_returns:
  "snd (reconcile_amounts t invoice spreadsheet) =
     Inr (verdict_statement_of (compare_text (parsed_amount (extract_number invoice))
       (parsed_amount (extract_number spreadsheet))))"
  using reconcile_amounts_run [of t invoice spreadsheet]
  by (auto simp: final_state_of_verdict)

lemmas extract_eval = extract_number_def clean_eval findall_eval float_eval py_max_def

lemma extract_500: "extract_number ''$500.00'' = Some 500"
  by (simp add: extract_eval)

lemma extract_400: "extract_number ''$400.00'' = Some 400"
  by (simp add: extract_eval)

lemma extract_garbage: "extract_number ''garbage'' = None"
  by (simp add: extract_eval)

lemma extract_empty: "extract_number [] = None"
  by (simp add: extract_number_def)

lemmas str_eval = py_str_float_def frac_digits.simps nat_str.simps digit_char_def digit_chars_def
  Let_def

lemma parsed_500: "parsed_amount (Some 500) = ''500.0''"
  by (simp add: parsed_amount_def str_eval)

lemma parsed_400: "parsed_amount (Some 400) = ''400.0''"
  by (simp add: parsed_amount_def str_eval)

lemma parsed_None: "parsed_amount None = ''0''"
  by (simp add: parsed_amount_def)

lemma float_amounts_500_400: "float_amounts ''500.0'' ''400.0'' = Inr (500, 400)"
  by (simp add: float_amounts_def float_eval digit_chars_def Let_def)

lemma float_amounts_500_500: "float_amounts ''500.0'' ''500.0'' = Inr (500, 500)"
  by (simp add: float_amounts_def float_eval digit_chars_def Let_def)

lemma float_amounts_0_0: "float_amounts ''0'' ''0'' = Inr (0, 0)"
  by (simp add: float_amounts_def float_eval digit_chars_def Let_def)

lemmas compare_eval = difference_of_def percentage_diff_of_def tolerance_def amounts_match_of_def
  comparison_result_of_def fmt_eval

lemma compare_text_500_400:
  "compare_text ''500.0'' ''400.0'' =
     ''MISMATCH: Invoice amount $500.00 does not match spreadsheet amount $400.00 (difference: $100.00, 20.00%)''"
  by (simp add: compare_text_def float_amounts_500_400 compare_eval)

lemma compare_text_500_500:
  "compare_text ''500.0'' ''500.0'' =
     ''MATCH: Invoice amount $500.00 matches spreadsheet amount $500.00 (difference: $0.00)''"
  by (simp add: compare_text_def float_amounts_500_500 compare_eval)

lemma compare_text_0_0:
  "compare_text ''0'' ''0'' =
     ''MATCH: Invoice amount $0.00 matches spreadsheet amount $0.00 (difference: $0.00)''"
  by (simp add: compare_text_def float_amounts_0_0 compare_eval)

lemmas verdict_eval = verdict_statement_of_def verdict_of_def reasoning_of_def
  get_recommendation_def nl_def

text \<open>
  C3. The claim: \<^verbatim>\<open>reconcile_amounts("$500.00", "$400.00")\<close> returns a verdict \<^verbatim>\<open>NO\<close>, and
  for \<^verbatim>\<open>"$500.00"\<close> twice a verdict \<^verbatim>\<open>YES\<close> whose rationale mentions ``match within
  acceptable tolerance''. On every tracer the second run returns that report. The first
  returns a report with the verdict \<^verbatim>\<open>YES\<close> too, around a \<^verbatim>\<open>MISMATCH\<close> summary: the
  comparison finds the 20% difference, and the verdict stage reads \<^verbatim>\<open>MATCH\<close> inside
  \<^verbatim>\<open>MISMATCH\<close> (the defect of C1).
\<close>

theorem run_500_400_says_yes:
  "snd (reconcile_amounts t ''$500.00'' ''$400.00'') =
     Inr (nl @ ''RECONCILIATION VERDICT: YES'' @ nl
       @ nl
       @ ''ANALYSIS:'' @ nl
       @ ''The amounts from the invoice and spreadsheet match within acceptable tolerance.'' @ nl
       @ nl
       @ ''DETAILS:'' @ nl
       @ ''MISMATCH: Invoice amount $500.00 does not match spreadsheet amount $400.00 (difference: $100.00, 20.00%)'' @ nl
       @ nl
       @ ''RECOMMENDATION:'' @ nl
       @ ''Amounts are reconciled. Proceed with processing.'' @ nl)
   \<and> snd (reconcile_amounts t ''$500.00'' ''$500.00'') =
     Inr (nl @ ''RECONCILIATION VERDICT: YES'' @ nl
       @ nl
       @ ''ANALYSIS:'' @ nl
       @ ''The amounts from the invoice and spreadsheet match within acceptable tolerance.'' @ nl
       @ nl
       @ ''DETAILS:'' @ nl
       @ ''MATCH: Invoice amount $500.00 matches spreadsheet amount $500.00 (difference: $0.00)'' @ nl
       @ nl
       @ ''RECOMMENDATION:'' @ nl
       @ ''Amounts are reconciled. Proceed with processing.'' @ nl)"
  by (simp add: reconcile_amounts_returns extract_500 extract_400 parsed_500 parsed_400
      compare_text_500_400 compare_text_500_500 verdict_eval)

text \<open>
  C4. \<^verbatim>\<open>reconcile_amounts("garbage", "")\<close>: neither input has a numeric token, so both
  extract to \<^verbatim>\<open>None\<close>; the parse stage stores the fallback \<^verbatim>\<open>"0"\<close> for both amounts (the
  three snapshots of the trace show it); 0 against 0 has percentage difference 0 and
  matches; the report returned carries the verdict \<^verbatim>\<open>YES\<close>.
\<close>

theorem run_garbage_says_yes:
  "extract_number ''garbage'' = None \<and> extract_number [] = None
   \<and> float_amounts ''0'' ''0'' = Inr (0, 0)
   \<and> percentage_diff_of 0 0 = 0 \<and> amounts_match_of 0 0
   \<and> (\<exists>t' tr. reconcile_amounts t ''garbage'' [] =
         (t', Inr (nl @ ''RECONCILIATION VERDICT: YES'' @ nl
           @ nl
           @ ''ANALYSIS:'' @ nl
           @ ''The amounts from the invoice and spreadsheet match within acceptable tolerance.'' @ nl
           @ nl
           @ ''DETAILS:'' @ nl
           @ ''MATCH: Invoice amount $0.00 matches spreadsheet amount $0.00 (difference: $0.00)'' @ nl
           @ nl
           @ ''RECOMMENDATION:'' @ nl
           @ ''Amounts are reconciled. Proceed with processing.'' @ nl))
       \<and> tracking t' (fst (create_trace_id t)) tr
       \<and> map (\<lambda>e. snap_invoice_amount (snapshot e)) (workflow_steps tr) = [''0'', ''0'', ''0'']
       \<and> map (\<lambda>e. snap_spreadsheet_amount (snapshot e)) (workflow_steps tr) = [''0'', ''0'', ''0''])"
proof -
  from reconcile_amounts_run [of t "''garbage''" "[]"] obtain t' where r:
    "reconcile_amounts t ''garbage'' [] =
       (t', Inr (verdict (final_state_of ''garbage'' [] (fst (create_trace_id t)))))"
    "tracking t' (fst (create_trace_id t)) (run_trace t ''garbage'' [])"
    by blast
  have v: "verdict (final_state_of ''garbage'' [] (fst (create_trace_id t))) =
      nl @ ''RECONCILIATION VERDICT: YES'' @ nl
           @ nl
           @ ''ANALYSIS:'' @ nl
           @ ''The amounts from the invoice and spreadsheet match within acceptable tolerance.'' @ nl
           @ nl
           @ ''DETAILS:'' @ nl
           @ ''MATCH: Invoice amount $0.00 matches spreadsheet amount $0.00 (difference: $0.00)'' @ nl
           @ nl
           @ ''RECOMMENDATION:'' @ nl
           @ ''Amounts are reconciled. Proceed with processing.'' @ nl"
    by (simp add: final_state_of_verdict extract_garbage extract_empty parsed_None
        compare_text_0_0 verdict_eval)
  have s1: "map (\<lambda>e. snap_invoice_amount (snapshot e)) (workflow_steps (run_trace t ''garbage'' []))
      = [''0'', ''0'', ''0'']"
    by (simp add: run_trace_def Let_def node_entry_fields node_state_fields initial_state_def
        extract_garbage parsed_None)
  have s2: "map (\<lambda>e. snap_spreadsheet_amount (snapshot e)) (workflow_steps (run_trace t ''garbage'' []))
      = [''0'', ''0'', ''0'']"
    by (simp add: run_trace_def Let_def node_entry_fields node_state_fields initial_state_def
        extract_empty parsed_None)
  have c: "percentage_diff_of 0 0 = 0" "amounts_match_of 0 0"
    by (simp_all add: percentage_diff_of_def amounts_match_of_def tolerance_def)
  from r v s1 s2 c extract_garbage extract_empty float_amounts_0_0 show ?thesis
    by auto
qed

section \<open>The order of the stages\<close>

lemma log_thinking_state:
  assumes "log_thinking t st nm th = (t', Inr st')"
  shows "st' = st\<lparr>thinking_log := AList.update nm th (thinking_log st)\<rparr>"
  using assms
  by (auto simp: log_thinking_def Let_def split_beta split: option.splits)

lemma node_action_state:
  assumes "node_action n t st = (t', Inr st')"
  shows "st' = node_state n st"
  using log_thinking_state [of t "fst (node_body n st)" "step_name n" "snd (node_body n st)" t' st']
    assms
  by (simp add: node_action_body node_state_def)

lemma tracking_current: "tracking t tid tr \<Longrightarrow> current_trace_id t = Some tid"
  by (simp add: tracking_def)

text \<open>
  C6. In every run of \<^verbatim>\<open>reconcile_amounts\<close> the trace of the run holds exactly three step
  records, logged by the stages \<^verbatim>\<open>parsing\<close>, \<^verbatim>\<open>comparison\<close>, \<^verbatim>\<open>verdict\<close> in this order, and
  the value of \<^verbatim>\<open>workflow_step\<close> in their snapshots is \<^verbatim>\<open>parse_amounts\<close>,
  \<^verbatim>\<open>compare_amounts\<close>, \<^verbatim>\<open>generate_verdict\<close>; the run ends in \<^verbatim>\<open>generate_verdict\<close>. The
  trace identifier is created before the workflow is invoked: the state that leaves the
  workflow carries it, it is still the tracer's current identifier after the run, and
  no stage changes the \<^verbatim>\<open>trace_id\<close> of the state it is given or, once the tracer has a
  current trace, the tracer's current identifier.
\<close>

theorem workflow_step_order_and_trace_id:
  "(\<exists>t' out tr f.
      reconcile_amounts t invoice spreadsheet = (t', Inr out)
      \<and> current_trace_id t' = Some (fst (create_trace_id t))
      \<and> map_of (trace_data t') (fst (create_trace_id t)) = Some tr
      \<and> map step (workflow_steps tr) = [''parsing'', ''comparison'', ''verdict'']
      \<and> map (\<lambda>e. snap_workflow_step (snapshot e)) (workflow_steps tr) =
          [''parse_amounts'', ''compare_amounts'', ''generate_verdict'']
      \<and> final_state tr = Some f \<and> final_workflow_step f = ''generate_verdict'')
   \<and> (\<exists>t3 final.
        invoke ((snd (create_trace_id t))\<lparr>live_thinking := reset_live_thinking\<rparr>)
          (initial_state invoice spreadsheet (fst (create_trace_id t))) = (t3, Inr final)
        \<and> trace_id final = fst (create_trace_id t)
        \<and> current_trace_id t3 = Some (fst (create_trace_id t)))
   \<and> (node_action n t1 st = (t2, Inr st2) \<longrightarrow> trace_id st2 = trace_id st)
   \<and> (tracking t1 tid tr1 \<longrightarrow> current_trace_id (fst (node_action n t1 st)) = Some tid)"
proof -
  let ?tid = "fst (create_trace_id t)"
  from reconcile_amounts_run [of t invoice spreadsheet] obtain t' where r:
    "reconcile_amounts t invoice spreadsheet =
       (t', Inr (verdict (final_state_of invoice spreadsheet ?tid)))"
    "tracking t' ?tid (run_trace t invoice spreadsheet)"
    by blast
  let ?tr = "run_trace t invoice spreadsheet"
  have steps: "map step (workflow_steps ?tr) = [''parsing'', ''comparison'', ''verdict'']"
    by (simp add: run_trace_def Let_def node_entry_fields)
  have snaps: "map (\<lambda>e. snap_workflow_step (snapshot e)) (workflow_steps ?tr) =
          [''parse_amounts'', ''compare_amounts'', ''generate_verdict'']"
    by (simp add: run_trace_def Let_def node_entry_fields node_state_fields)
  have fin: "final_state ?tr = Some (final_state_entry_of (final_state_of invoice spreadsheet ?tid))"
    "final_workflow_step (final_state_entry_of (final_state_of invoice spreadsheet ?tid)) =
       ''generate_verdict''"
    by (simp_all add: run_trace_def Let_def final_state_of_def final_state_entry_of_def
        node_state_fields)
  from r(2) have cur: "current_trace_id t' = Some ?tid" "map_of (trace_data t') ?tid = Some ?tr"
    by (simp_all add: tracking_def)
  have part1: "\<exists>t' out tr f.
      reconcile_amounts t invoice spreadsheet = (t', Inr out)
      \<and> current_trace_id t' = Some ?tid
      \<and> map_of (trace_data t') ?tid = Some tr
      \<and> map step (workflow_steps tr) = [''parsing'', ''comparison'', ''verdict'']
      \<and> map (\<lambda>e. snap_workflow_step (snapshot e)) (workflow_steps tr) =
          [''parse_amounts'', ''compare_amounts'', ''generate_verdict'']
      \<and> final_state tr = Some f \<and> final_workflow_step f = ''generate_verdict''"
  proof (intro exI conjI)
    show "reconcile_amounts t invoice spreadsheet =
       (t', Inr (verdict (final_state_of invoice spreadsheet ?tid)))"
      by (rule r(1))
    show "current_trace_id t' = Some ?tid"
      by (rule cur(1))
    show "map_of (trace_data t') ?tid = Some ?tr"
      by (rule cur(2))
    show "map step (workflow_steps ?tr) = [''parsing'', ''comparison'', ''verdict'']"
      by (rule steps)
    show "map (\<lambda>e. snap_workflow_step (snapshot e)) (workflow_steps ?tr) =
          [''parse_amounts'', ''compare_amounts'', ''generate_verdict'']"
      by (rule snaps)
    show "final_state ?tr = Some (final_state_entry_of (final_state_of invoice spreadsheet ?tid))"
      by (rule fin(1))
    show "final_workflow_step (final_state_entry_of (final_state_of invoice spreadsheet ?tid)) =
       ''generate_verdict''"
      by (rule fin(2))
  qed
  let ?t2 = "(snd (create_trace_id t))\<lparr>live_thinking := reset_live_thinking\<rparr>"
  have "tracking ?t2 ?tid (new_trace (clock t (Suc (ticks t))))"
    using create_trace_id_tracking [of t] by (simp add: tracking_live_thinking)
  from invoke_tracking [OF this, of "initial_state invoice spreadsheet ?tid"]
  obtain t3 tr3 where i:
    "invoke ?t2 (initial_state invoice spreadsheet ?tid) =
       (t3, Inr (node_state generate_verdict (node_state compare_amounts
                  (node_state parse_amounts (initial_state invoice spreadsheet ?tid)))))"
    "tracking t3 ?tid tr3"
    by blast
  have "trace_id (node_state generate_verdict (node_state compare_amounts
                  (node_state parse_amounts (initial_state invoice spreadsheet ?tid)))) = ?tid"
    by (simp add: node_state_trace_id initial_state_def)
  with i have part2: "\<exists>t3 final.
        invoke ?t2 (initial_state invoice spreadsheet ?tid) = (t3, Inr final)
        \<and> trace_id final = ?tid \<and> current_trace_id t3 = Some ?tid"
    using tracking_current by blast
  have part3: "node_action n t1 st = (t2, Inr st2) \<longrightarrow> trace_id st2 = trace_id st"
    using node_action_state [of n t1 st t2 st2] by (auto simp: node_state_trace_id)
  have part4: "tracking t1 tid tr1 \<longrightarrow> current_trace_id (fst (node_action n t1 st)) = Some tid"
  proof
    assume "tracking t1 tid tr1"
    from node_action_tracking [OF this, of n st] obtain t' tr' where
      "node_action n t1 st = (t', Inr (node_state n st))" "tracking t' tid tr'"
      by blast
    then show "current_trace_id (fst (node_action n t1 st)) = Some tid"
      by (simp add: tracking_def)
  qed
  from part1 part2 part3 part4 show ?thesis
    by blast
qed

lemma sample_run_tracking:
  "tracking (snd (create_trace_id (init_tracer sample_clock)))
     ''reconciliation_trace_20240101_120000'' (new_trace (sample_clock 1))"
  using create_trace_id_tracking [of "init_tracer sample_clock"]
  by (simp add: create_trace_id_fst init_tracer_def sample_clock_def)

theorem workflow_step_order_and_trace_id_witness:
  "tracking (snd (create_trace_id (init_tracer sample_clock)))
     ''reconciliation_trace_20240101_120000'' (new_trace (sample_clock 1))
   \<and> current_trace_id (fst (node_action compare_amounts
        (snd (create_trace_id (init_tracer sample_clock)))
        (initial_state ''500.0'' ''400.0'' ''reconciliation_trace_20240101_120000'')))
      = Some ''reconciliation_trace_20240101_120000''
   \<and> (\<exists>t2 st2. node_action compare_amounts
        (snd (create_trace_id (init_tracer sample_clock)))
        (initial_state ''500.0'' ''400.0'' ''reconciliation_trace_20240101_120000'') = (t2, Inr st2)
       \<and> trace_id st2 = ''reconciliation_trace_20240101_120000'')"
proof -
  let ?t1 = "snd (create_trace_id (init_tracer sample_clock))"
  let ?tid = "''reconciliation_trace_20240101_120000''"
  let ?st = "initial_state ''500.0'' ''400.0'' ?tid"
  note tr = sample_run_tracking
  from node_action_tracking [OF tr, of compare_amounts ?st] obtain t2 where
    n: "node_action compare_amounts ?t1 ?st = (t2, Inr (node_state compare_amounts ?st))"
    by blast
  note spec = workflow_step_order_and_trace_id [of "init_tracer sample_clock" "''$500.00''"
      "''$400.00''" compare_amounts ?t1 ?st t2 "node_state compare_amounts ?st" ?tid
      "new_trace (sample_clock 1)"]
  from spec n have a: "trace_id (node_state compare_amounts ?st) = trace_id ?st"
    by blast
  from spec tr have b: "current_trace_id (fst (node_action compare_amounts ?t1 ?st)) = Some ?tid"
    by blast
  have c: "trace_id ?st = ?tid"
    by (simp add: initial_state_def)
  from n a c have "\<exists>t2 st2. node_action compare_amounts ?t1 ?st = (t2, Inr st2) \<and> trace_id st2 = ?tid"
    by simp
  with tr b show ?thesis
    by blast
qed

section \<open>Failures inside a stage\<close>





section \<open>The metrics of the store\<close>

lemma length_filter_not:
  "length (filter (\<lambda>x. \<not> P x) xs) = length xs - length (filter P xs)"
  using sum_length_filter_compl [of P xs] by simp

text \<open>
  C8. For a store that holds N traces, K of them with an error,
  \<^verbatim>\<open>get_workflow_metrics\<close> reports N executions, the failure rate K/N and the success
  rate (N - K)/N. (N is at least 1: for an empty store the function returns the empty
  dictionary, which has no rates.)
\<close>

theorem workflow_metrics_rates:
  assumes "0 < recorded_runs t"
  shows "\<exists>m. get_workflow_metrics t = Some m
    \<and> total_executions m = recorded_runs t
    \<and> failure_rate m = of_nat (failed_runs t) / of_nat (recorded_runs t)
    \<and> success_rate m = of_nat (recorded_runs t - failed_runs t) / of_nat (recorded_runs t)"
  using assms
  by (simp add: get_workflow_metrics_def recorded_runs_def failed_runs_def Let_def
      length_filter_not)

theorem workflow_metrics_rates_witness:
  "0 < recorded_runs sample_store \<and> recorded_runs sample_store = 4 \<and> failed_runs sample_store = 1
   \<and> (\<exists>m. get_workflow_metrics sample_store = Some m \<and> total_executions m = 4
        \<and> failure_rate m = 1 / 4 \<and> success_rate m = 3 / 4)"
proof -
  have n: "recorded_runs sample_store = 4"
    by (simp add: recorded_runs_def sample_store_def)
  have k: "failed_runs sample_store = 1"
    by (simp add: failed_runs_def sample_store_def sample_trace_def truthy_def)
  from n have pos: "0 < recorded_runs sample_store"
    by simp
  from workflow_metrics_rates [OF pos] obtain m where
    "get_workflow_metrics sample_store = Some m"
    "total_executions m = recorded_runs sample_store"
    "failure_rate m = of_nat (failed_runs sample_store) / of_nat (recorded_runs sample_store)"
    "success_rate m = of_nat (recorded_runs sample_store - failed_runs sample_store)
       / of_nat (recorded_runs sample_store)"
    by blast
  then have "get_workflow_metrics sample_store = Some m \<and> total_executions m = 4
        \<and> failure_rate m = 1 / 4 \<and> success_rate m = 3 / 4"
    by (simp add: n k)
  with n k pos show ?thesis
    by blast
qed

section \<open>Exporting a trace\<close>

lemma export_absent:
  assumes "get_trace t tid = None"
  shows "export_trace_to_json t fs tid fp = (t, \<lparr>returned = Inr False, written = None\<rparr>)"
  using assms by (simp add: export_trace_to_json_def)

lemma export_present:
  assumes "get_trace t tid = Some tr"
    and "os_makedirs fs (dirname (export_file_path t tid fp)) = None"
  shows "returned (snd (export_trace_to_json t fs tid fp)) =
           Inr (write_raises fs (export_file_path t tid fp) = None)"
    and "written (snd (export_trace_to_json t fs tid fp)) =
           (if write_raises fs (export_file_path t tid fp) = None
            then Some (export_file_path t tid fp,
                   \<lparr>doc_trace_data = tr, doc_workflow_metrics = get_workflow_metrics t,
                    doc_export_timestamp = clock t (ticks t),
                    doc_langraph_version = ''reconciliation_enhanced_tracing''\<rparr>)
            else None)"
  using assms
  by (simp_all add: export_trace_to_json_def Let_def datetime_now_def split: option.splits)

lemma export_written_present:
  assumes "written (snd (export_trace_to_json t fs tid fp)) = Some (p, d)"
  shows "get_trace t tid = Some (doc_trace_data d)"
  using assms
  by (auto simp: export_trace_to_json_def Let_def datetime_now_def split: option.splits)

lemma sample_unsealed:
  "get_trace (snd (create_trace_id (init_tracer sample_clock))) None =
     Some (new_trace (sample_clock 1), observability_of (new_trace (sample_clock 1)))"
  by (simp add: get_trace_def truthy_def create_trace_id_def datetime_now_def Let_def
      init_tracer_def sample_clock_def)

lemma sample_export_path:
  "export_file_path (snd (create_trace_id (init_tracer sample_clock))) None None =
     ''output/reconciliation_trace_20240101_120000_reconciliation_enhanced.json''"
  by (simp add: export_file_path_def truthy_def create_trace_id_def datetime_now_def Let_def
      init_tracer_def sample_clock_def py_str_opt_str_def)

lemma sample_export_dir:
  "dirname ''output/reconciliation_trace_20240101_120000_reconciliation_enhanced.json'' = ''output''"
  by (simp add: dirname_def)

text \<open>
  C9, as stated, fails: the trace that \<^verbatim>\<open>_create_trace_id\<close> has just created is not
  sealed (its end time and its result are \<^verbatim>\<open>None\<close>), and \<^verbatim>\<open>export_trace_to_json\<close>, on a
  file system that accepts the directory and the file, writes the export document for
  it and returns \<^verbatim>\<open>True\<close>.
\<close>

theorem export_of_unsealed_trace:
  "end_time (new_trace (sample_clock 1)) = None \<and> result (new_trace (sample_clock 1)) = None
   \<and> get_trace (snd (create_trace_id (init_tracer sample_clock))) None =
       Some (new_trace (sample_clock 1), observability_of (new_trace (sample_clock 1)))
   \<and> returned (snd (export_trace_to_json (snd (create_trace_id (init_tracer sample_clock)))
        permissive_fs None None)) = Inr True
   \<and> (\<exists>d. written (snd (export_trace_to_json (snd (create_trace_id (init_tracer sample_clock)))
        permissive_fs None None)) =
         Some (''output/reconciliation_trace_20240101_120000_reconciliation_enhanced.json'', d)
       \<and> doc_trace_data d =
           (new_trace (sample_clock 1), observability_of (new_trace (sample_clock 1))))"
proof -
  let ?t1 = "snd (create_trace_id (init_tracer sample_clock))"
  have mk: "os_makedirs permissive_fs (dirname (export_file_path ?t1 None None)) = None"
    by (simp add: sample_export_path sample_export_dir os_makedirs_def permissive_fs_def)
  have wr: "write_raises permissive_fs (export_file_path ?t1 None None) = None"
    by (simp add: permissive_fs_def)
  note e = export_present [OF sample_unsealed mk]
  from e(1) wr have r: "returned (snd (export_trace_to_json ?t1 permissive_fs None None)) = Inr True"
    by simp
  from e(2) wr have w: "\<exists>d. written (snd (export_trace_to_json ?t1 permissive_fs None None)) =
         Some (''output/reconciliation_trace_20240101_120000_reconciliation_enhanced.json'', d)
       \<and> doc_trace_data d =
           (new_trace (sample_clock 1), observability_of (new_trace (sample_clock 1)))"
    by (simp add: sample_export_path)
  have u: "end_time (new_trace (sample_clock 1)) = None" "result (new_trace (sample_clock 1)) = None"
    by (simp_all add: new_trace_def)
  from u sample_unsealed r w show ?thesis
    by (intro conjI)
qed

text \<open>
  C9, amended. When the requested trace is absent, \<^verbatim>\<open>export_trace_to_json\<close> returns
  \<^verbatim>\<open>False\<close> without raising, writes nothing and leaves the tracer as it is. For a trace
  that exists, sealed or not, once the directory of the export is in place it returns
  \<^verbatim>\<open>True\<close> exactly when the write of the file succeeds, and what it then writes is the
  trace (with its observability block), the current metrics, the time of the export and
  the version tag; when the write fails it returns \<^verbatim>\<open>False\<close> and writes nothing. A
  document is written only for a trace that exists.
\<close>

theorem export_trace_to_json_spec:
  "(get_trace t tid = None \<longrightarrow>
      export_trace_to_json t fs tid fp = (t, \<lparr>returned = Inr False, written = None\<rparr>))
   \<and> (get_trace t tid = Some tr \<and> os_makedirs fs (dirname (export_file_path t tid fp)) = None \<longrightarrow>
        returned (snd (export_trace_to_json t fs tid fp)) =
          Inr (write_raises fs (export_file_path t tid fp) = None)
        \<and> written (snd (export_trace_to_json t fs tid fp)) =
           (if write_raises fs (export_file_path t tid fp) = None
            then Some (export_file_path t tid fp,
                   \<lparr>doc_trace_data = tr, doc_workflow_metrics = get_workflow_metrics t,
                    doc_export_timestamp = clock t (ticks t),
                    doc_langraph_version = ''reconciliation_enhanced_tracing''\<rparr>)
            else None))
   \<and> (written (snd (export_trace_to_json t fs tid fp)) = Some (p, d) \<longrightarrow>
        get_trace t tid = Some (doc_trace_data d))"
  using export_absent [of t tid fs fp] export_present [of t tid tr fs fp]
    export_written_present [of t fs tid fp p d]
  by blast

lemma sample_sealed:
  "\<exists>tr. get_trace (fst (reconcile_amounts (init_tracer sample_clock) ''$5'' ''$5'')) None
      = Some (tr, observability_of tr)
    \<and> end_time tr = Some (sample_clock 5) \<and> result tr \<noteq> None"
proof -
  let ?t = "init_tracer sample_clock"
  from reconcile_amounts_run [of ?t "''$5''" "''$5''"] obtain t' where r:
    "reconcile_amounts ?t ''$5'' ''$5'' =
       (t', Inr (verdict (final_state_of ''$5'' ''$5'' (fst (create_trace_id ?t)))))"
    "tracking t' (fst (create_trace_id ?t)) (run_trace ?t ''$5'' ''$5'')"
    by blast
  from r(2) have "get_trace t' None =
      Some (run_trace ?t ''$5'' ''$5'', observability_of (run_trace ?t ''$5'' ''$5''))"
    by (simp add: tracking_def get_trace_def truthy_def)
  moreover have "end_time (run_trace ?t ''$5'' ''$5'') = Some (sample_clock 5)"
    "result (run_trace ?t ''$5'' ''$5'') \<noteq> None"
    by (simp_all add: run_trace_def Let_def init_tracer_def)
  ultimately show ?thesis
    using r(1) by auto
qed

theorem export_trace_to_json_spec_witness:
  "get_trace (init_tracer sample_clock) (Some ''reconciliation_trace_19990101_000000'') = None
   \<and> export_trace_to_json (init_tracer sample_clock) permissive_fs
        (Some ''reconciliation_trace_19990101_000000'') None =
       (init_tracer sample_clock, \<lparr>returned = Inr False, written = None\<rparr>)
   \<and> (\<exists>tr. get_trace (fst (reconcile_amounts (init_tracer sample_clock) ''$5'' ''$5'')) None
          = Some (tr, observability_of tr)
        \<and> end_time tr = Some (sample_clock 5) \<and> result tr \<noteq> None
        \<and> returned (snd (export_trace_to_json
             (fst (reconcile_amounts (init_tracer sample_clock) ''$5'' ''$5''))
             permissive_fs None (Some ''out/trace.json''))) = Inr True
        \<and> (\<exists>d. written (snd (export_trace_to_json
             (fst (reconcile_amounts (init_tracer sample_clock) ''$5'' ''$5''))
             permissive_fs None (Some ''out/trace.json''))) = Some (''out/trace.json'', d)
            \<and> doc_trace_data d = (tr, observability_of tr))
        \<and> export_trace_to_json
             (fst (reconcile_amounts (init_tracer sample_clock) ''$5'' ''$5''))
             read_only_fs None (Some ''out/trace.json'')
           = (fst (reconcile_amounts (init_tracer sample_clock) ''$5'' ''$5'')\<lparr>ticks :=
                Suc (ticks (fst (reconcile_amounts (init_tracer sample_clock) ''$5'' ''$5'')))\<rparr>,
              \<lparr>returned = Inr False, written = None\<rparr>))"
proof -
  let ?ini = "init_tracer sample_clock"
  let ?t = "fst (reconcile_amounts ?ini ''$5'' ''$5'')"
  let ?missing = "Some ''reconciliation_trace_19990101_000000''"
  have absent: "get_trace ?ini ?missing = None"
    by (simp add: get_trace_def truthy_def init_tracer_def)
  note spec0 = export_trace_to_json_spec [of ?ini ?missing permissive_fs None]
  from spec0 absent have 1: "export_trace_to_json ?ini permissive_fs ?missing None =
       (?ini, \<lparr>returned = Inr False, written = None\<rparr>)"
    by blast
  from sample_sealed obtain tr where tr: "get_trace ?t None = Some (tr, observability_of tr)"
      "end_time tr = Some (sample_clock 5)" "result tr \<noteq> None"
    by blast
  have path: "export_file_path ?t None (Some ''out/trace.json'') = ''out/trace.json''"
    by (simp add: export_file_path_def truthy_def)
  have dir: "dirname ''out/trace.json'' = ''out''"
    by (simp add: dirname_def)
  have mk: "os_makedirs permissive_fs (dirname (export_file_path ?t None (Some ''out/trace.json''))) = None"
    "os_makedirs read_only_fs (dirname (export_file_path ?t None (Some ''out/trace.json''))) = None"
    by (simp_all add: path dir os_makedirs_def permissive_fs_def read_only_fs_def)
  note spec1 = export_trace_to_json_spec [of ?t None permissive_fs
      "Some ''out/trace.json''" "(tr, observability_of tr)"]
  from spec1 tr(1) mk(1) have
    2: "returned (snd (export_trace_to_json ?t permissive_fs None (Some ''out/trace.json''))) =
          Inr (write_raises permissive_fs (export_file_path ?t None (Some ''out/trace.json'')) = None)"
    and 3: "written (snd (export_trace_to_json ?t permissive_fs None (Some ''out/trace.json''))) =
           (if write_raises permissive_fs (export_file_path ?t None (Some ''out/trace.json'')) = None
            then Some (export_file_path ?t None (Some ''out/trace.json''),
                   \<lparr>doc_trace_data = (tr, observability_of tr),
                    doc_workflow_metrics = get_workflow_metrics ?t,
                    doc_export_timestamp = clock ?t (ticks ?t),
                    doc_langraph_version = ''reconciliation_enhanced_tracing''\<rparr>)
            else None)"
    by blast+
  from 2 have ret: "returned (snd (export_trace_to_json ?t permissive_fs None (Some ''out/trace.json'')))
      = Inr True"
    by (simp add: permissive_fs_def)
  from 3 have wrt: "\<exists>d. written (snd (export_trace_to_json ?t permissive_fs None
        (Some ''out/trace.json''))) = Some (''out/trace.json'', d)
      \<and> doc_trace_data d = (tr, observability_of tr)"
    by (simp add: permissive_fs_def path)
  have 4: "export_trace_to_json ?t read_only_fs None (Some ''out/trace.json'')
           = (?t\<lparr>ticks := Suc (ticks ?t)\<rparr>, \<lparr>returned = Inr False, written = None\<rparr>)"
    using tr(1) mk(2)
    by (simp add: export_trace_to_json_def Let_def datetime_now_def path read_only_fs_def)
  show ?thesis
  proof (intro conjI)
    show "get_trace ?ini ?missing = None" by (rule absent)
    show "export_trace_to_json ?ini permissive_fs ?missing None =
       (?ini, \<lparr>returned = Inr False, written = None\<rparr>)" by (rule 1)
    show "\<exists>tr. get_trace ?t None = Some (tr, observability_of tr)
        \<and> end_time tr = Some (sample_clock 5) \<and> result tr \<noteq> None
        \<and> returned (snd (export_trace_to_json ?t permissive_fs None (Some ''out/trace.json''))) = Inr True
        \<and> (\<exists>d. written (snd (export_trace_to_json ?t permissive_fs None (Some ''out/trace.json'')))
               = Some (''out/trace.json'', d)
            \<and> doc_trace_data d = (tr, observability_of tr))
        \<and> export_trace_to_json ?t read_only_fs None (Some ''out/trace.json'')
           = (?t\<lparr>ticks := Suc (ticks ?t)\<rparr>, \<lparr>returned = Inr False, written = None\<rparr>)"
      using tr ret wrt 4 by blast
  qed
qed

section \<open>The verdict\<close>

lemma str_in_sublist: "str_in pat s = sublist pat s"
  by (induction s) (simp_all add: sublist_Cons_right)

lemma mismatch_contains_match:
  assumes "str_in ''MISMATCH'' s"
  shows "str_in ''MATCH'' s"
proof -
  from assms obtain ps ss where "s = ps @ ''MISMATCH'' @ ss"
    by (auto simp: str_in_sublist sublist_def)
  then have "s = (ps @ ''MIS'') @ ''MATCH'' @ ss"
    by simp
  then show ?thesis
    unfolding str_in_sublist sublist_def by blast
qed

lemma verdict_of_never_NO: "verdict_of s \<noteq> ''NO''"
  using mismatch_contains_match [of s] by (auto simp: verdict_of_def)

text \<open>
  C1. The claim: a summary that contains \<^verbatim>\<open>MISMATCH\<close> gets the verdict \<^verbatim>\<open>NO\<close>. The code
  tests \<^verbatim>\<open>"MATCH" in reconciliation_result\<close> first, and \<^verbatim>\<open>MATCH\<close> is a substring of
  \<^verbatim>\<open>MISMATCH\<close>: on the summary the comparison stage writes for 500 against 400 the
  verdict is \<^verbatim>\<open>YES\<close>, with the reasoning and the recommendation of a match.
\<close>

theorem verdict_of_mismatch_summary:
  "str_in ''MISMATCH''
     ''MISMATCH: Invoice amount $500.00 does not match spreadsheet amount $400.00 (difference: $100.00, 20.00%)''
   \<and> verdict_of
     ''MISMATCH: Invoice amount $500.00 does not match spreadsheet amount $400.00 (difference: $100.00, 20.00%)''
     = ''YES''
   \<and> reasoning_of
     ''MISMATCH: Invoice amount $500.00 does not match spreadsheet amount $400.00 (difference: $100.00, 20.00%)''
     = ''The amounts from the invoice and spreadsheet match within acceptable tolerance.''"
  by (simp add: verdict_of_def reasoning_of_def)

section \<open>The comparison\<close>

text \<open>
  C2. The claim: for 100.0 against 99.0 the percentage difference is 1.0 and the amounts
  match. The code computes the percentage 1, and compares it with \<^verbatim>\<open>tolerance = 0.01\<close>,
  the fraction that its comments call ``1% tolerance'': the amounts do not match and the
  summary is a \<^verbatim>\<open>MISMATCH\<close>.
\<close>

theorem compare_100_99:
  "float_amounts ''100.0'' ''99.0'' = Inr (100, 99)
   \<and> difference_of 100 99 = 1
   \<and> percentage_diff_of 100 99 = 1
   \<and> tolerance = 1 / 100
   \<and> \<not> amounts_match_of 100 99
   \<and> comparison_result_of 100 99 =
       ''MISMATCH: Invoice amount $100.00 does not match spreadsheet amount $99.00 (difference: $1.00, 1.00%)''"
  by (simp add: float_amounts_def float_eval difference_of_def percentage_diff_of_def
      tolerance_def amounts_match_of_def comparison_result_of_def fmt_eval)

text \<open>
  C10. Whenever the larger of the two amounts is not positive, the guard
  \<^verbatim>\<open>max(invoice_val, spreadsheet_val) > 0\<close> fails, the percentage difference is 0 and
  the summary is a \<^verbatim>\<open>MATCH\<close>, whatever the difference of the amounts.
\<close>

theorem nonpositive_amounts_match:
  assumes "max a b \<le> 0"
  shows "percentage_diff_of a b = 0 \<and> amounts_match_of a b
    \<and> comparison_result_of a b =
        ''MATCH: Invoice amount $'' @ fmt_2f True a
        @ '' matches spreadsheet amount $'' @ fmt_2f True b
        @ '' (difference: $'' @ fmt_2f True \<bar>a - b\<bar> @ '')''"
proof -
  from assms have guard: "\<not> 0 < max a b"
    by linarith
  then have p: "percentage_diff_of a b = 0"
    by (simp add: percentage_diff_of_def)
  then have m: "amounts_match_of a b"
    by (simp add: amounts_match_of_def tolerance_def)
  show ?thesis
    using p m by (simp add: comparison_result_of_def difference_of_def)
qed

theorem nonpositive_amounts_match_witness:
  "max (- 500) (- 100) \<le> (0::rat)
   \<and> difference_of (- 500) (- 100) = 400
   \<and> percentage_diff_of (- 500) (- 100) = 0
   \<and> amounts_match_of (- 500) (- 100)
   \<and> comparison_result_of (- 500) (- 100) =
       ''MATCH: Invoice amount $-500.00 matches spreadsheet amount $-100.00 (difference: $400.00)''"
  using nonpositive_amounts_match [of "- 500" "- 100"]
  by (simp add: fmt_eval difference_of_def)

end
